theory Spec2Isabelle
  imports Main
begin

section \<open>Bytes and strings\<close>

text \<open>
  A Go string is a sequence of bytes; it is modelled as a \<^typ>\<open>string\<close>, a list of
  8-bit characters. The two helpers below change the case of one ASCII letter, as the
  Go expressions \<^verbatim>\<open>c -= 'a' - 'A'\<close> and \<^verbatim>\<open>c += 'a' - 'A'\<close> do under their range
  guards; every other byte is left alone.
\<close>

definition upper_byte :: "char \<Rightarrow> char" where
  "upper_byte c =
     (if 97 \<le> (of_char c :: nat) \<and> (of_char c :: nat) \<le> 122
      then char_of ((of_char c :: nat) - 32) else c)"

definition lower_byte :: "char \<Rightarrow> char" where
  "lower_byte c =
     (if 65 \<le> (of_char c :: nat) \<and> (of_char c :: nat) \<le> 90
      then char_of ((of_char c :: nat) + 32) else c)"

definition isASCII :: "string \<Rightarrow> bool" where
  "isASCII s = list_all (\<lambda>c. (of_char c :: nat) < 128) s"

text \<open>
  \<^verbatim>\<open>strings.ToUpper\<close>: on a string of ASCII bytes only, every lower-case letter is
  replaced by its upper-case letter. On any other string the standard library maps each
  rune through the Unicode tables; that mapping is not part of the repository and is the
  parameter \<open>unicode_upper\<close>.
\<close>

definition strings_ToUpper :: "(string \<Rightarrow> string) \<Rightarrow> string \<Rightarrow> string" where
  "strings_ToUpper unicode_upper s =
     (if isASCII s then map upper_byte s else unicode_upper s)"

section \<open>config/config.go\<close>

record ServerConfig =
  server_Port :: int
  server_Host :: string

record TargetConfig =
  target_Scheme :: string
  target_Host :: string

record ProxyConfig =
  proxy_URL :: string
  proxy_Username :: string
  proxy_Password :: string

record LoggingConfig =
  logging_Level :: string
  logging_Format :: string

record Config =
  Server :: ServerConfig
  Target :: TargetConfig
  Proxy :: ProxyConfig
  Logging :: LoggingConfig

text \<open>The errors of \<^verbatim>\<open>validateConfig\<close>, one constructor for each \<^verbatim>\<open>fmt.Errorf\<close>.\<close>

datatype config_error =
    InvalidServerPort int
  | TargetHostRequired
  | InvalidTargetScheme string
  | ProxyURLRequired
  | ProxyUsernameRequired
  | ProxyPasswordRequired

text \<open>The errors of \<^verbatim>\<open>LoadConfig\<close> and of \<^verbatim>\<open>loadConfigWithFallback\<close>.\<close>

datatype load_error =
    OpenFailed
  | DecodeFailed
  | InvalidConfiguration config_error
  | CreateDirFailed
  | CreateFileFailed
  | WriteDefaultFailed

text \<open>
  \<^verbatim>\<open>strconv.Atoi\<close> on a 64-bit platform: an optional sign, then one or more decimal
  digits, denoting a value that fits a signed 64-bit integer; anything else is an error
  (\<open>None\<close>).
\<close>

definition digit_val :: "char \<Rightarrow> int option" where
  "digit_val ch =
     (if 48 \<le> (of_char ch :: int) \<and> (of_char ch :: int) \<le> 57
      then Some ((of_char ch :: int) - 48) else None)"

fun parse_digits :: "int \<Rightarrow> string \<Rightarrow> int option" where
  "parse_digits n [] = Some n"
| "parse_digits n (ch # rest) =
     (case digit_val ch of
        None \<Rightarrow> None
      | Some d \<Rightarrow> parse_digits (n * 10 + d) rest)"

definition Atoi :: "string \<Rightarrow> int option" where
  "Atoi s =
     (case s of
        [] \<Rightarrow> None
      | c # rest \<Rightarrow>
          (let digits = (if c = CHR ''-'' \<or> c = CHR ''+'' then rest else s) in
           if digits = [] then None
           else
             (case parse_digits 0 digits of
                None \<Rightarrow> None
              | Some n \<Rightarrow>
                  (let v = (if c = CHR ''-'' then - n else n) in
                   if - (2 ^ 63) \<le> v \<and> v < 2 ^ 63 then Some v else None))))"

text \<open>
  \<^verbatim>\<open>applyEnvironmentOverrides\<close>; \<open>getenv\<close> is \<^verbatim>\<open>os.Getenv\<close>, which gives the empty
  string for a variable that is not set.
\<close>

definition applyEnvironmentOverrides :: "(string \<Rightarrow> string) \<Rightarrow> Config \<Rightarrow> Config" where
  "applyEnvironmentOverrides getenv config =
     (let c1 = (let port = getenv ''PROXY_PORT'' in
                if port \<noteq> [] then
                  (case Atoi port of
                     Some p \<Rightarrow> config\<lparr>Server := (Server config)\<lparr>server_Port := p\<rparr>\<rparr>
                   | None \<Rightarrow> config)
                else config);
          c2 = (let host = getenv ''PROXY_HOST'' in
                if host \<noteq> [] then c1\<lparr>Server := (Server c1)\<lparr>server_Host := host\<rparr>\<rparr> else c1);
          c3 = (let targetHost = getenv ''TARGET_HOST'' in
                if targetHost \<noteq> [] then c2\<lparr>Target := (Target c2)\<lparr>target_Host := targetHost\<rparr>\<rparr>
                else c2);
          c4 = (let targetScheme = getenv ''TARGET_SCHEME'' in
                if targetScheme \<noteq> []
                then c3\<lparr>Target := (Target c3)\<lparr>target_Scheme := targetScheme\<rparr>\<rparr>
                else c3);
          c5 = (let proxyURL = getenv ''PROXY_URL'' in
                if proxyURL \<noteq> [] then c4\<lparr>Proxy := (Proxy c4)\<lparr>proxy_URL := proxyURL\<rparr>\<rparr>
                else c4);
          c6 = (let proxyUser = getenv ''PROXY_USERNAME'' in
                if proxyUser \<noteq> [] then c5\<lparr>Proxy := (Proxy c5)\<lparr>proxy_Username := proxyUser\<rparr>\<rparr>
                else c5);
          c7 = (let proxyPass = getenv ''PROXY_PASSWORD'' in
                if proxyPass \<noteq> [] then c6\<lparr>Proxy := (Proxy c6)\<lparr>proxy_Password := proxyPass\<rparr>\<rparr>
                else c6);
          c8 = (let logLevel = getenv ''LOG_LEVEL'' in
                if logLevel \<noteq> [] then c7\<lparr>Logging := (Logging c7)\<lparr>logging_Level := logLevel\<rparr>\<rparr>
                else c7)
      in c8)"

text \<open>\<^verbatim>\<open>validateConfig\<close>; \<open>None\<close> is the nil error.\<close>

definition validateConfig :: "Config \<Rightarrow> config_error option" where
  "validateConfig config =
     (if server_Port (Server config) \<le> 0 \<or> server_Port (Server config) > 65535
      then Some (InvalidServerPort (server_Port (Server config)))
      else if target_Host (Target config) = [] then Some TargetHostRequired
      else if target_Scheme (Target config) \<noteq> ''http''
              \<and> target_Scheme (Target config) \<noteq> ''https''
      then Some (InvalidTargetScheme (target_Scheme (Target config)))
      else if proxy_URL (Proxy config) = [] then Some ProxyURLRequired
      else if proxy_Username (Proxy config) = [] then Some ProxyUsernameRequired
      else if proxy_Password (Proxy config) = [] then Some ProxyPasswordRequired
      else None)"

definition DefaultConfig :: Config where
  "DefaultConfig =
     \<lparr>Server = \<lparr>server_Port = 8080, server_Host = ''0.0.0.0''\<rparr>,
      Target = \<lparr>target_Scheme = ''https'', target_Host = ''target.com''\<rparr>,
      Proxy = \<lparr>proxy_URL = ''http://dc.oxylabs.io:8000'',
               proxy_Username = ''user-ecosuite_p5OUw-country-US'',
               proxy_Password = ''xFV5WETRRky_''\<rparr>,
      Logging = \<lparr>logging_Level = ''info'', logging_Format = ''json''\<rparr>\<rparr>"

text \<open>
  The operating system as the loader sees it. \<open>files\<close> maps the path of each existing
  file to its content; \<open>can_mkdir\<close>, \<open>can_create\<close> and \<open>can_write\<close> say whether
  \<^verbatim>\<open>os.MkdirAll\<close>, \<^verbatim>\<open>os.Create\<close> and a write to the created file succeed on a path.
  The JSON codec of the \<^verbatim>\<open>Config\<close> struct belongs to the standard library and is a
  parameter: \<open>json_Decode\<close> gives \<open>None\<close> for content the decoder rejects.
\<close>

record os_state =
  files :: "string \<rightharpoonup> string"
  can_mkdir :: "string \<Rightarrow> bool"
  can_create :: "string \<Rightarrow> bool"
  can_write :: "string \<Rightarrow> bool"

record json_codec =
  json_Decode :: "string \<Rightarrow> Config option"
  json_Encode :: "Config \<Rightarrow> string"

definition LoadConfig ::
  "json_codec \<Rightarrow> (string \<Rightarrow> string) \<Rightarrow> os_state \<Rightarrow> string \<Rightarrow> load_error + Config" where
  "LoadConfig codec getenv os configPath =
     (case files os configPath of
        None \<Rightarrow> Inl OpenFailed
      | Some content \<Rightarrow>
          (case json_Decode codec content of
             None \<Rightarrow> Inl DecodeFailed
           | Some decoded \<Rightarrow>
               (let config = applyEnvironmentOverrides getenv decoded in
                case validateConfig config of
                  Some err \<Rightarrow> Inl (InvalidConfiguration err)
                | None \<Rightarrow> Inr config)))"

text \<open>
  \<^verbatim>\<open>loadConfigWithFallback\<close> of the main package. \<^verbatim>\<open>os.Stat\<close> reports that the file does
  not exist exactly when \<open>files\<close> has no entry for the path; a path on which \<^verbatim>\<open>os.Stat\<close>
  fails for another reason is not represented. The result is paired with
  the state of the operating system afterwards. The two messages printed to the standard
  output are left out.
\<close>

definition loadConfigWithFallback ::
  "json_codec \<Rightarrow> (string \<Rightarrow> string) \<Rightarrow> os_state \<Rightarrow> string
     \<Rightarrow> (load_error + Config) \<times> os_state" where
  "loadConfigWithFallback codec getenv os configPath =
     (if files os configPath = None then
        (let defaultCfg = DefaultConfig in
         if \<not> can_mkdir os ''config'' then (Inl CreateDirFailed, os)
         else if \<not> can_create os configPath then (Inl CreateFileFailed, os)
         else
           (let os1 = os\<lparr>files := (files os)(configPath \<mapsto> [])\<rparr> in
            if \<not> can_write os1 configPath then (Inl WriteDefaultFailed, os1)
            else
              (Inr defaultCfg,
               os1\<lparr>files := (files os1)(configPath \<mapsto> json_Encode codec defaultCfg)\<rparr>)))
      else (LoadConfig codec getenv os configPath, os))"

section \<open>logging/logger.go\<close>

type_synonym LogLevel = int

definition DEBUG :: LogLevel where "DEBUG = 0"
definition INFO :: LogLevel where "INFO = 1"
definition WARN :: LogLevel where "WARN = 2"
definition ERROR :: LogLevel where "ERROR = 3"

definition LogLevel_String :: "LogLevel \<Rightarrow> string" where
  "LogLevel_String l =
     (if l = DEBUG then ''DEBUG''
      else if l = INFO then ''INFO''
      else if l = WARN then ''WARN''
      else if l = ERROR then ''ERROR''
      else ''UNKNOWN'')"

text \<open>
  The values the repository puts into a log entry's field map: strings, integers,
  booleans and durations (in nanoseconds).
\<close>

datatype field_value = VString string | VInt int | VBool bool | VDuration int

text \<open>
  A field map is given as the list of its entries in the order a \<^verbatim>\<open>range\<close> loop visits
  them; a nil map is the empty list.
\<close>

type_synonym log_fields = "(string \<times> field_value) list"

record LogEntry =
  entry_Timestamp :: string
  entry_Level :: string
  entry_Message :: string
  entry_Fields :: log_fields

text \<open>
  The formatting routines of the standard library that \<^verbatim>\<open>Logger.log\<close> calls:
  \<^verbatim>\<open>json.Marshal\<close> on a log entry (\<open>Inl\<close> carries the error's text) and the \<^verbatim>\<open>%v\<close>
  verb on a field value.
\<close>

record fmt_lib =
  json_Marshal :: "LogEntry \<Rightarrow> string + string"
  Sprint_v :: "field_value \<Rightarrow> string"

text \<open>
  The logger. \<open>writer\<close> holds what has been written to the logger's \<^verbatim>\<open>io.Writer\<close>: one
  element for each call of \<^verbatim>\<open>fmt.Fprintln\<close>, oldest first.
\<close>

record Logger =
  writer :: "string list"
  level :: LogLevel
  format :: string

definition parseLogLevel :: "(string \<Rightarrow> string) \<Rightarrow> string \<Rightarrow> LogLevel" where
  "parseLogLevel unicode_upper levelStr =
     (let u = strings_ToUpper unicode_upper levelStr in
      if u = ''DEBUG'' then DEBUG
      else if u = ''INFO'' then INFO
      else if u = ''WARN'' \<or> u = ''WARNING'' then WARN
      else if u = ''ERROR'' then ERROR
      else INFO)"

definition NewLogger :: "(string \<Rightarrow> string) \<Rightarrow> LoggingConfig \<Rightarrow> Logger" where
  "NewLogger unicode_upper cfg =
     \<lparr>writer = [], level = parseLogLevel unicode_upper (logging_Level cfg),
      format = logging_Format cfg\<rparr>"

fun strings_Join :: "string list \<Rightarrow> string \<Rightarrow> string" where
  "strings_Join [] sep = []"
| "strings_Join [x] sep = x"
| "strings_Join (x # y # ys) sep = x @ sep @ strings_Join (y # ys) sep"

definition render_entry :: "fmt_lib \<Rightarrow> string \<Rightarrow> LogEntry \<Rightarrow> string" where
  "render_entry lib fmt entry =
     (if fmt = ''json'' then
        (case json_Marshal lib entry of
           Inl err \<Rightarrow> ''Failed to marshal log entry: '' @ err
         | Inr jsonBytes \<Rightarrow> jsonBytes)
      else
        (let fieldsStr =
               (if length (entry_Fields entry) > 0
                then '' '' @ strings_Join
                       (map (\<lambda>(k, v). k @ ''='' @ Sprint_v lib v) (entry_Fields entry)) '' ''
                else [])
         in ''['' @ entry_Timestamp entry @ ''] '' @ entry_Level entry @ '' ''
            @ entry_Message entry @ fieldsStr))"

text \<open>
  \<^verbatim>\<open>Logger.log\<close>; \<open>now\<close> is \<^verbatim>\<open>time.Now().Format(time.RFC3339)\<close> at the call.
\<close>

definition Logger_log ::
  "fmt_lib \<Rightarrow> string \<Rightarrow> Logger \<Rightarrow> LogLevel \<Rightarrow> string \<Rightarrow> log_fields \<Rightarrow> Logger" where
  "Logger_log lib now l lvl message flds =
     (if lvl < level l then l
      else
        (let entry = \<lparr>entry_Timestamp = now, entry_Level = LogLevel_String lvl,
                      entry_Message = message, entry_Fields = flds\<rparr>;
             output = render_entry lib (format l) entry
         in l\<lparr>writer := writer l @ [output]\<rparr>))"

definition Logger_Debug :: "fmt_lib \<Rightarrow> string \<Rightarrow> Logger \<Rightarrow> string \<Rightarrow> log_fields \<Rightarrow> Logger" where
  "Logger_Debug lib now l message flds = Logger_log lib now l DEBUG message flds"

definition Logger_Info :: "fmt_lib \<Rightarrow> string \<Rightarrow> Logger \<Rightarrow> string \<Rightarrow> log_fields \<Rightarrow> Logger" where
  "Logger_Info lib now l message flds = Logger_log lib now l INFO message flds"

definition Logger_Warn :: "fmt_lib \<Rightarrow> string \<Rightarrow> Logger \<Rightarrow> string \<Rightarrow> log_fields \<Rightarrow> Logger" where
  "Logger_Warn lib now l message flds = Logger_log lib now l WARN message flds"

definition Logger_Error :: "fmt_lib \<Rightarrow> string \<Rightarrow> Logger \<Rightarrow> string \<Rightarrow> log_fields \<Rightarrow> Logger" where
  "Logger_Error lib now l message flds = Logger_log lib now l ERROR message flds"

definition SetOutput :: "Logger \<Rightarrow> string list \<Rightarrow> Logger" where
  "SetOutput l w = l\<lparr>writer := w\<rparr>"

definition SetLevel :: "Logger \<Rightarrow> LogLevel \<Rightarrow> Logger" where
  "SetLevel l lvl = l\<lparr>level := lvl\<rparr>"

section \<open>HTTP headers\<close>

text \<open>
  An \<^verbatim>\<open>http.Header\<close> is a map from header names to lists of values. Where the code
  only stores into a header or looks a name up, it is a map; where the code ranges over
  one, it is given as the list of its entries in the order the loop visits them, which
  Go leaves open.
\<close>

type_synonym Header = "string \<rightharpoonup> string list"

type_synonym header_entries = "(string \<times> string list) list"

definition range_of :: "Header \<Rightarrow> header_entries \<Rightarrow> bool" where
  "range_of h es = (distinct (map fst es) \<and> map_of es = h)"

text \<open>
  \<^verbatim>\<open>textproto.CanonicalMIMEHeaderKey\<close>, which \<^verbatim>\<open>Header.Add\<close> and \<^verbatim>\<open>Header.Set\<close> apply to
  the name they are given: a name with a byte that is not a token character is returned
  as it is; in any other name the first letter and every letter after a hyphen become
  upper case and all other letters lower case. The token characters are the letters,
  the digits and the bytes 33, 35 to 39, 42, 43, 45, 46, 94, 95, 96, 124 and 126.
\<close>

definition validHeaderFieldByte :: "char \<Rightarrow> bool" where
  "validHeaderFieldByte c =
     (let n = (of_char c :: nat) in
      (48 \<le> n \<and> n \<le> 57) \<or> (65 \<le> n \<and> n \<le> 90) \<or> (97 \<le> n \<and> n \<le> 122)
      \<or> n = 33 \<or> (35 \<le> n \<and> n \<le> 39) \<or> n = 42 \<or> n = 43 \<or> n = 45 \<or> n = 46
      \<or> n = 94 \<or> n = 95 \<or> n = 96 \<or> n = 124 \<or> n = 126)"

fun canonicalize :: "bool \<Rightarrow> string \<Rightarrow> string" where
  "canonicalize upper [] = []"
| "canonicalize upper (c # cs) =
     (let c' = (if upper then upper_byte c else lower_byte c)
      in c' # canonicalize (c' = CHR ''-'') cs)"

definition CanonicalMIMEHeaderKey :: "string \<Rightarrow> string" where
  "CanonicalMIMEHeaderKey s =
     (if list_all validHeaderFieldByte s then canonicalize True s else s)"

definition Header_Add :: "Header \<Rightarrow> string \<Rightarrow> string \<Rightarrow> Header" where
  "Header_Add h key v =
     (let k = CanonicalMIMEHeaderKey key
      in h(k \<mapsto> (case h k of None \<Rightarrow> [v] | Some vs \<Rightarrow> vs @ [v])))"

definition Header_Set :: "Header \<Rightarrow> string \<Rightarrow> string \<Rightarrow> Header" where
  "Header_Set h key v = h(CanonicalMIMEHeaderKey key \<mapsto> [v])"

text \<open>
  The header map the \<^verbatim>\<open>net/http\<close> server and client build from the header lines of a
  message they read (\<^verbatim>\<open>textproto.Reader.ReadMIMEHeader\<close>): each line's name is put into
  canonical form and its value appended to the values of that name. The lines are pairs
  of a name and a value as they stand in the message.
\<close>

fun readMIMEHeader :: "Header \<Rightarrow> (string \<times> string) list \<Rightarrow> Header" where
  "readMIMEHeader m [] = m"
| "readMIMEHeader m ((k, v) # rest) = readMIMEHeader (Header_Add m k v) rest"

section \<open>net/url\<close>

text \<open>
  The fields of a \<^verbatim>\<open>url.URL\<close> that the parser fills from the text of a URL. The
  authority (user information, host and port) is kept as it stands in the text: its
  split and its validation are not modelled. \<open>url_Path\<close> and \<open>url_Fragment\<close> are the
  decoded forms; the raw forms are left out.
\<close>

record URL =
  url_Scheme :: string
  url_Opaque :: string
  url_Authority :: string
  url_Path :: string
  url_ForceQuery :: bool
  url_RawQuery :: string
  url_Fragment :: string

datatype url_error =
    EmptyURL
  | InvalidControlCharacter
  | MissingProtocolScheme
  | InvalidURIForRequest
  | FirstPathSegmentColon
  | EscapeError string

text \<open>
  \<^verbatim>\<open>unescape\<close> in the modes for a path and for a fragment: every \<open>%\<close> must be followed by
  two hexadecimal digits and the three bytes become the byte they denote; otherwise the
  result is the error that carries the offending bytes, three at most.
\<close>

definition ishex :: "char \<Rightarrow> bool" where
  "ishex c =
     (let n = (of_char c :: nat) in
      (48 \<le> n \<and> n \<le> 57) \<or> (97 \<le> n \<and> n \<le> 102) \<or> (65 \<le> n \<and> n \<le> 70))"

definition unhex :: "char \<Rightarrow> nat" where
  "unhex c =
     (let n = (of_char c :: nat) in
      if 48 \<le> n \<and> n \<le> 57 then n - 48
      else if 97 \<le> n \<and> n \<le> 102 then n - 97 + 10
      else if 65 \<le> n \<and> n \<le> 70 then n - 65 + 10
      else 0)"

fun unescape :: "string \<Rightarrow> url_error + string" where
  "unescape [] = Inr []"
| "unescape (c # cs) =
     (if c = CHR ''%'' then
        (case cs of
           h1 # h2 # rest \<Rightarrow>
             (if ishex h1 \<and> ishex h2 then
                (case unescape rest of
                   Inl e \<Rightarrow> Inl e
                 | Inr t \<Rightarrow> Inr (char_of (unhex h1 * 16 + unhex h2) # t))
              else Inl (EscapeError (take 3 (c # cs))))
         | _ \<Rightarrow> Inl (EscapeError (take 3 (c # cs))))
      else
        (case unescape cs of
           Inl e \<Rightarrow> Inl e
         | Inr t \<Rightarrow> Inr (c # t)))"

definition stringContainsCTLByte :: "string \<Rightarrow> bool" where
  "stringContainsCTLByte s =
     list_ex (\<lambda>b. (of_char b :: nat) < 32 \<or> (of_char b :: nat) = 127) s"

definition is_letter :: "char \<Rightarrow> bool" where
  "is_letter c =
     (let n = (of_char c :: nat) in (97 \<le> n \<and> n \<le> 122) \<or> (65 \<le> n \<and> n \<le> 90))"

definition is_digit :: "char \<Rightarrow> bool" where
  "is_digit c = (48 \<le> (of_char c :: nat) \<and> (of_char c :: nat) \<le> 57)"

text \<open>
  \<^verbatim>\<open>getScheme\<close>: the scheme is a letter followed by letters, digits, \<open>+\<close>, \<open>-\<close> and \<open>.\<close> up
  to the first colon; a text that does not start this way has no scheme. \<open>seen\<close> holds
  the bytes already read.
\<close>

fun getScheme_from :: "string \<Rightarrow> string \<Rightarrow> string \<Rightarrow> url_error + string \<times> string" where
  "getScheme_from rawURL seen [] = Inr ([], rawURL)"
| "getScheme_from rawURL seen (c # cs) =
     (if is_letter c then getScheme_from rawURL (seen @ [c]) cs
      else if is_digit c \<or> c = CHR ''+'' \<or> c = CHR ''-'' \<or> c = CHR ''.'' then
        (if seen = [] then Inr ([], rawURL) else getScheme_from rawURL (seen @ [c]) cs)
      else if c = CHR '':'' then
        (if seen = [] then Inl MissingProtocolScheme else Inr (seen, cs))
      else Inr ([], rawURL))"

definition getScheme :: "string \<Rightarrow> url_error + string \<times> string" where
  "getScheme rawURL = getScheme_from rawURL [] rawURL"

text \<open>\<^verbatim>\<open>strings.Cut\<close>: the text before and after the first occurrence of a byte.\<close>

definition strings_Cut :: "string \<Rightarrow> char \<Rightarrow> string \<times> string" where
  "strings_Cut s sep =
     (takeWhile (\<lambda>c. c \<noteq> sep) s, drop 1 (dropWhile (\<lambda>c. c \<noteq> sep) s))"

text \<open>
  \<^verbatim>\<open>parse(rawURL, viaRequest)\<close> of \<^verbatim>\<open>net/url\<close>: the scheme is split off and put into
  lower case, the query is cut at the first \<open>?\<close>, the authority is what stands between a
  leading \<open>//\<close> and the next \<open>/\<close>, and the rest is decoded into the path.
\<close>

definition parse :: "string \<Rightarrow> bool \<Rightarrow> url_error + URL" where
  "parse rawURL viaRequest =
     (if stringContainsCTLByte rawURL then Inl InvalidControlCharacter
      else if rawURL = [] \<and> viaRequest then Inl EmptyURL
      else if rawURL = ''*'' then
        Inr \<lparr>url_Scheme = [], url_Opaque = [], url_Authority = [], url_Path = ''*'',
             url_ForceQuery = False, url_RawQuery = [], url_Fragment = []\<rparr>
      else
        (case getScheme rawURL of
           Inl e \<Rightarrow> Inl e
         | Inr (scheme0, rest0) \<Rightarrow>
             (let scheme = map lower_byte scheme0;
                  forceQuery = (if rest0 = [] then False
                                else last rest0 = CHR ''?'' \<and> count_list rest0 (CHR ''?'') = 1);
                  rest1 = (if forceQuery then butlast rest0
                           else fst (strings_Cut rest0 (CHR ''?'')));
                  rawQuery = (if forceQuery then []
                              else snd (strings_Cut rest0 (CHR ''?'')));
                  rooted = (take 1 rest1 = ''/'')
              in
                if \<not> rooted \<and> scheme \<noteq> [] then
                  Inr \<lparr>url_Scheme = scheme, url_Opaque = rest1, url_Authority = [],
                       url_Path = [], url_ForceQuery = forceQuery, url_RawQuery = rawQuery,
                       url_Fragment = []\<rparr>
                else if \<not> rooted \<and> viaRequest then Inl InvalidURIForRequest
                else if \<not> rooted \<and> CHR '':'' \<in> set (fst (strings_Cut rest1 (CHR ''/'')))
                then Inl FirstPathSegmentColon
                else
                  (let hasAuthority =
                         (if take 2 rest1 = ''//''
                          then (if scheme = [] then \<not> viaRequest \<and> take 3 rest1 \<noteq> ''///''
                                else True)
                          else False);
                       authority = (if hasAuthority
                                    then takeWhile (\<lambda>c. c \<noteq> CHR ''/'') (drop 2 rest1) else []);
                       rest2 = (if hasAuthority
                                then dropWhile (\<lambda>c. c \<noteq> CHR ''/'') (drop 2 rest1) else rest1)
                   in
                     (case unescape rest2 of
                        Inl e \<Rightarrow> Inl e
                      | Inr path \<Rightarrow>
                          Inr \<lparr>url_Scheme = scheme, url_Opaque = [], url_Authority = authority,
                               url_Path = path, url_ForceQuery = forceQuery,
                               url_RawQuery = rawQuery, url_Fragment = []\<rparr>)))))"

text \<open>
  \<^verbatim>\<open>url.Parse\<close>, which \<^verbatim>\<open>http.NewRequestWithContext\<close> applies to its URL argument: the text
  is cut at the first \<open>#\<close>, the part before it is parsed and the part after it decoded
  into the fragment. \<^verbatim>\<open>url.ParseRequestURI\<close> is what the server applies to the target of
  an inbound request; its path and query are \<^verbatim>\<open>r.URL.Path\<close> and \<^verbatim>\<open>r.URL.RawQuery\<close>.
\<close>

definition url_Parse :: "string \<Rightarrow> url_error + URL" where
  "url_Parse rawURL =
     (let u = fst (strings_Cut rawURL (CHR ''#''));
          frag = snd (strings_Cut rawURL (CHR ''#''))
      in case parse u False of
           Inl e \<Rightarrow> Inl e
         | Inr url \<Rightarrow>
             (if frag = [] then Inr url
              else
                (case unescape frag of
                   Inl e \<Rightarrow> Inl e
                 | Inr f \<Rightarrow> Inr (url\<lparr>url_Fragment := f\<rparr>))))"

definition url_ParseRequestURI :: "string \<Rightarrow> url_error + URL" where
  "url_ParseRequestURI rawURL = parse rawURL True"

section \<open>proxy/client.go\<close>

text \<open>
  The fields of the inbound \<^verbatim>\<open>http.Request\<close> that the package reads; \<open>req_TLS\<close> says
  whether the request came in over TLS.
\<close>

record Request =
  req_Method :: string
  req_Path :: string
  req_RawQuery :: string
  req_Header :: header_entries
  req_Host :: string
  req_RemoteAddr :: string
  req_Body :: string
  req_TLS :: bool

text \<open>
  A request for the HTTP client as the arguments it is made from: the method, the URL
  text given to \<^verbatim>\<open>http.NewRequestWithContext\<close>, the header, the body, and the timeout in
  seconds of the context. The URL of the request is what \<open>url_Parse\<close> makes of the text.
\<close>

record out_request =
  out_Method :: string
  out_URL :: string
  out_Header :: Header
  out_Body :: string
  out_Timeout :: nat

record upstream_response =
  resp_StatusCode :: nat
  resp_Header :: header_entries
  resp_Body :: string

text \<open>
  What the package asks of \<^verbatim>\<open>net/http\<close>: whether \<^verbatim>\<open>http.NewRequestWithContext\<close> refuses
  a method and URL (\<open>Some\<close> carries the error's text), and the round trip of
  \<^verbatim>\<open>http.Client.Do\<close> through the upstream proxy (\<open>Inl\<close> carries the error's text).
  In \<^verbatim>\<open>ForwardRequest\<close> the parse of the URL is computed by \<open>url_Parse\<close>, and
  \<open>NewRequest_error\<close> stands for the checks that are not computed: the method and the
  authority.
\<close>

record http_lib =
  NewRequest_error :: "string \<Rightarrow> string \<Rightarrow> string option"
  client_Do :: "out_request \<Rightarrow> string + upstream_response"

definition copyHeaders_hopHeaders :: "string \<rightharpoonup> bool" where
  "copyHeaders_hopHeaders =
     map_of
       [(''Connection'', True),
        (''Proxy-Connection'', True),
        (''Keep-Alive'', True),
        (''Proxy-Authenticate'', True),
        (''Proxy-Authorization'', True),
        (''Te'', True),
        (''Trailer'', True),
        (''Transfer-Encoding'', True),
        (''Upgrade'', True)]"

text \<open>Indexing a \<^verbatim>\<open>map[string]bool\<close>: a missing key gives \<^verbatim>\<open>false\<close>.\<close>

definition index_bool :: "(string \<rightharpoonup> bool) \<Rightarrow> string \<Rightarrow> bool" where
  "index_bool m k = (case m k of None \<Rightarrow> False | Some b \<Rightarrow> b)"

fun add_values :: "Header \<Rightarrow> string \<Rightarrow> string list \<Rightarrow> Header" where
  "add_values h name [] = h"
| "add_values h name (v # vs) = add_values (Header_Add h name v) name vs"

fun copy_loop :: "(string \<rightharpoonup> bool) \<Rightarrow> Header \<Rightarrow> header_entries \<Rightarrow> Header" where
  "copy_loop hop dst [] = dst"
| "copy_loop hop dst ((name, vals) # rest) =
     copy_loop hop (if \<not> index_bool hop name then add_values dst name vals else dst) rest"

text \<open>\<^verbatim>\<open>copyHeaders(dst, src)\<close>: the header of \<open>dst\<close> before the call, and \<open>src\<close>.\<close>

definition copyHeaders :: "Header \<Rightarrow> Request \<Rightarrow> Header" where
  "copyHeaders dst src =
     (let h1 = copy_loop copyHeaders_hopHeaders dst (req_Header src);
          h2 = Header_Set h1 ''X-Forwarded-For'' (req_RemoteAddr src);
          h3 = Header_Set h2 ''X-Forwarded-Proto'' ''http''
      in if req_Host src \<noteq> [] then Header_Set h3 ''X-Forwarded-Host'' (req_Host src) else h3)"

definition targetURL :: "Config \<Rightarrow> Request \<Rightarrow> string" where
  "targetURL config originalReq =
     (let u = concat [target_Scheme (Target config), ''://'', target_Host (Target config),
                      req_Path originalReq]
      in if req_RawQuery originalReq \<noteq> [] then u @ ''?'' @ req_RawQuery originalReq else u)"

text \<open>
  The request \<^verbatim>\<open>ForwardRequest\<close> builds: \<^verbatim>\<open>http.NewRequestWithContext\<close> puts GET for an
  empty method and gives a request with an empty header, which \<^verbatim>\<open>copyHeaders\<close> then
  fills. \<open>outbound_URL\<close> is the URL of that request, parsed from the target text.
\<close>

definition outbound_request :: "Config \<Rightarrow> nat \<Rightarrow> Request \<Rightarrow> out_request" where
  "outbound_request config timeout originalReq =
     \<lparr>out_Method = (if req_Method originalReq = [] then ''GET'' else req_Method originalReq),
      out_URL = targetURL config originalReq,
      out_Header = copyHeaders Map.empty originalReq,
      out_Body = req_Body originalReq,
      out_Timeout = timeout\<rparr>"

definition outbound_URL :: "Config \<Rightarrow> Request \<Rightarrow> url_error + URL" where
  "outbound_URL config originalReq = url_Parse (targetURL config originalReq)"

text \<open>
  The errors of \<^verbatim>\<open>ForwardRequest\<close>: the request could not be created (refused by a check
  that is not computed, or the URL did not parse), or the round trip failed.
\<close>

datatype request_error = Refused string | ParseError url_error

datatype forward_error = CreateRequestFailed request_error | ProxyRequestFailed string

definition ForwardRequest ::
  "http_lib \<Rightarrow> Config \<Rightarrow> nat \<Rightarrow> Request \<Rightarrow> forward_error + upstream_response" where
  "ForwardRequest lib config timeout originalReq =
     (case NewRequest_error lib (req_Method originalReq) (targetURL config originalReq) of
        Some err \<Rightarrow> Inl (CreateRequestFailed (Refused err))
      | None \<Rightarrow>
          (case outbound_URL config originalReq of
             Inl err \<Rightarrow> Inl (CreateRequestFailed (ParseError err))
           | Inr u \<Rightarrow>
               (case client_Do lib (outbound_request config timeout originalReq) of
                  Inl err \<Rightarrow> Inl (ProxyRequestFailed err)
                | Inr resp \<Rightarrow> Inr resp)))"

section \<open>proxy/handler.go\<close>

text \<open>
  What a handler has written to its \<^verbatim>\<open>http.ResponseWriter\<close>: the header map, the status
  code given to \<^verbatim>\<open>WriteHeader\<close> (0 before the call) and the body bytes.
\<close>

record ResponseWriter =
  rw_Header :: Header
  rw_Status :: nat
  rw_Body :: string

definition new_ResponseWriter :: ResponseWriter where
  "new_ResponseWriter = \<lparr>rw_Header = Map.empty, rw_Status = 0, rw_Body = []\<rparr>"

text \<open>The value of \<^verbatim>\<open>ctx.Err()\<close>; \<open>None\<close> is nil.\<close>

datatype ctx_error = Canceled | DeadlineExceeded

definition StatusOK :: nat where "StatusOK = 200"
definition StatusMethodNotAllowed :: nat where "StatusMethodNotAllowed = 405"
definition StatusBadGateway :: nat where "StatusBadGateway = 502"
definition StatusServiceUnavailable :: nat where "StatusServiceUnavailable = 503"
definition StatusGatewayTimeout :: nat where "StatusGatewayTimeout = 504"

text \<open>
  \<^verbatim>\<open>http.Error\<close>: a plain-text reply with the given status, the message and a newline.
\<close>

definition http_Error :: "ResponseWriter \<Rightarrow> string \<Rightarrow> nat \<Rightarrow> ResponseWriter" where
  "http_Error w msg code =
     (let h1 = Header_Set (rw_Header w) ''Content-Type'' ''text/plain; charset=utf-8'';
          h2 = Header_Set h1 ''X-Content-Type-Options'' ''nosniff''
      in w\<lparr>rw_Header := h2, rw_Status := code, rw_Body := rw_Body w @ msg @ [CHR 0x0A]\<rparr>)"

definition copyResponseHeaders_hopHeaders :: "string \<rightharpoonup> bool" where
  "copyResponseHeaders_hopHeaders =
     map_of
       [(''Connection'', True),
        (''Proxy-Connection'', True),
        (''Keep-Alive'', True),
        (''Proxy-Authenticate'', True),
        (''Proxy-Authorization'', True),
        (''Te'', True),
        (''Trailer'', True),
        (''Transfer-Encoding'', True),
        (''Upgrade'', True)]"

definition copyResponseHeaders :: "ResponseWriter \<Rightarrow> upstream_response \<Rightarrow> ResponseWriter" where
  "copyResponseHeaders dst src =
     dst\<lparr>rw_Header := copy_loop copyResponseHeaders_hopHeaders (rw_Header dst) (resp_Header src)\<rparr>"

text \<open>
  \<^verbatim>\<open>Handler.ServeHTTP\<close>, as the response it writes. \<open>ctx_err\<close> is the value of
  \<^verbatim>\<open>ctx.Err()\<close> that the handler reads once the forwarding call has failed, and \<open>now\<close>
  is \<^verbatim>\<open>time.Now().Format(time.RFC3339)\<close> at the write of the error body. The context
  carries a timeout of 30 seconds. The calls to the logger write to the logger only and
  are left out, and the body of a successful response is copied to its end.
  \<^verbatim>\<open>WriteHeader\<close> panics on a status code outside 100 to 999: the handler ends there, with
  the header map filled and neither status nor body written.
\<close>

definition ServeHTTP ::
  "http_lib \<Rightarrow> Config \<Rightarrow> ctx_error option \<Rightarrow> string \<Rightarrow> Request \<Rightarrow> ResponseWriter" where
  \<open>ServeHTTP lib config ctx_err now r =
     (let w = new_ResponseWriter in
      case ForwardRequest lib config 30 r of
        Inl err \<Rightarrow>
          (let statusCode = (if ctx_err = Some DeadlineExceeded
                             then StatusGatewayTimeout else StatusBadGateway);
               errorMsg = (if ctx_err = Some DeadlineExceeded
                           then ''Request timeout'' else ''Proxy error'')
           in w\<lparr>rw_Header := Header_Set (rw_Header w) ''Content-Type'' ''application/json'',
                rw_Status := statusCode,
                rw_Body := rw_Body w @ ''{"error":"'' @ errorMsg @ ''","timestamp":"''
                           @ now @ ''"}''\<rparr>)
      | Inr resp \<Rightarrow>
          (let w1 = copyResponseHeaders w resp
           in if resp_StatusCode resp < 100 \<or> 999 < resp_StatusCode resp then w1
              else w1\<lparr>rw_Status := resp_StatusCode resp,
                      rw_Body := rw_Body w1 @ resp_Body resp\<rparr>))\<close>

text \<open>
  \<^verbatim>\<open>Handler.HealthCheck\<close>. The probe is a HEAD request to the target's scheme and host,
  with an empty header and no body, under a context with a timeout of 5 seconds.
\<close>

definition health_probe :: "Config \<Rightarrow> out_request" where
  "health_probe config =
     \<lparr>out_Method = ''HEAD'',
      out_URL = target_Scheme (Target config) @ ''://'' @ target_Host (Target config),
      out_Header = Map.empty,
      out_Body = [],
      out_Timeout = 5\<rparr>"

definition HealthCheck :: "http_lib \<Rightarrow> Config \<Rightarrow> string \<Rightarrow> Request \<Rightarrow> ResponseWriter" where
  \<open>HealthCheck lib config now r =
     (let w = new_ResponseWriter in
      if req_Method r \<noteq> ''GET'' then http_Error w ''Method not allowed'' StatusMethodNotAllowed
      else
        (case NewRequest_error lib ''HEAD'' (out_URL (health_probe config)) of
           Some err \<Rightarrow> http_Error w ''Health check failed'' StatusServiceUnavailable
         | None \<Rightarrow>
             (case client_Do lib (health_probe config) of
                Inl err \<Rightarrow> http_Error w ''Health check failed'' StatusServiceUnavailable
              | Inr resp \<Rightarrow>
                  w\<lparr>rw_Header := Header_Set (rw_Header w) ''Content-Type'' ''application/json'',
                    rw_Status := StatusOK,
                    rw_Body := rw_Body w @ ''{"status":"healthy","timestamp":"'' @ now
                               @ ''"}''\<rparr>)))\<close>

text \<open>
  \<^verbatim>\<open>Handler.Metrics\<close>; \<open>uptime\<close> is the text of \<^verbatim>\<open>time.Since(time.Now()).String()\<close>.
\<close>

definition Metrics :: "string \<Rightarrow> Request \<Rightarrow> ResponseWriter" where
  \<open>Metrics uptime r =
     (let w = new_ResponseWriter in
      if req_Method r \<noteq> ''GET'' then http_Error w ''Method not allowed'' StatusMethodNotAllowed
      else
        w\<lparr>rw_Header := Header_Set (rw_Header w) ''Content-Type'' ''application/json'',
          rw_Status := StatusOK,
          rw_Body := rw_Body w @ ''{"metrics":{"uptime":"'' @ uptime
                     @ ''","requests_total":0}}''\<rparr>)\<close>

section \<open>Properties of the logger\<close>

lemma char_eq_iff_code: "(c = d) = ((of_char c :: nat) = of_char d)"
  by (metis char_of_char)

lemma of_char_upper_byte:
  "(of_char (upper_byte c) :: nat) =
     (if 97 \<le> (of_char c :: nat) \<and> (of_char c :: nat) \<le> 122 then of_char c - 32 else of_char c)"
  by (auto simp: upper_byte_def)

lemma of_char_lower_byte:
  "(of_char (lower_byte c) :: nat) =
     (if 65 \<le> (of_char c :: nat) \<and> (of_char c :: nat) \<le> 90 then of_char c + 32 else of_char c)"
  by (auto simp: lower_byte_def)

lemma upper_lower_byte: "upper_byte (lower_byte c) = upper_byte c"
  by (auto simp: char_eq_iff_code of_char_upper_byte of_char_lower_byte)

lemma lower_upper_byte: "lower_byte (upper_byte c) = lower_byte c"
  by (auto simp: char_eq_iff_code of_char_upper_byte of_char_lower_byte)

lemma lower_byte_ascii:
  "(of_char (lower_byte c) :: nat) < 128 \<Longrightarrow> (of_char c :: nat) < 128"
  by (auto simp: of_char_lower_byte split: if_splits)

lemma map_upper_of_lower: "map upper_byte (map lower_byte s) = map upper_byte s"
  by (simp add: upper_lower_byte)

lemma isASCII_of_lower: "isASCII (map lower_byte s) \<Longrightarrow> isASCII s"
  by (induction s) (auto simp: isASCII_def dest: lower_byte_ascii)

lemma ToUpper_of_fold:
  assumes "map lower_byte s = t" and "isASCII t"
  shows "strings_ToUpper uu s = map upper_byte t"
proof -
  from assms have "isASCII s" using isASCII_of_lower by blast
  then show ?thesis
    using assms(1) by (auto simp: strings_ToUpper_def upper_lower_byte)
qed

lemma up_debug: "map upper_byte ''debug'' = ''DEBUG''" by code_simp
lemma up_info: "map upper_byte ''info'' = ''INFO''" by code_simp
lemma up_warn: "map upper_byte ''warn'' = ''WARN''" by code_simp
lemma up_warning: "map upper_byte ''warning'' = ''WARNING''" by code_simp
lemma up_error: "map upper_byte ''error'' = ''ERROR''" by code_simp
lemma ascii_levels:
  "isASCII ''debug''" "isASCII ''info''" "isASCII ''warn''" "isASCII ''warning''" "isASCII ''error''"
  by (simp_all add: isASCII_def)

text \<open>
  Claim C10. The log level is parsed without regard to letter case: a string that equals
  \<open>debug\<close>, \<open>info\<close>, \<open>warn\<close>, \<open>warning\<close> or \<open>error\<close> up to the case of its letters
  gives DEBUG, INFO, WARN, WARN and ERROR. A string whose upper-case form is none of
  DEBUG, INFO, WARN, WARNING, ERROR gives INFO, and so does the empty string. The level
  of a new logger is the parsed level of the configured string.
\<close>

theorem parseLogLevel_case_insensitive:
  "(map lower_byte s = ''debug'' \<longrightarrow> parseLogLevel uu s = DEBUG) \<and>
   (map lower_byte s = ''info'' \<longrightarrow> parseLogLevel uu s = INFO) \<and>
   (map lower_byte s = ''warn'' \<longrightarrow> parseLogLevel uu s = WARN) \<and>
   (map lower_byte s = ''warning'' \<longrightarrow> parseLogLevel uu s = WARN) \<and>
   (map lower_byte s = ''error'' \<longrightarrow> parseLogLevel uu s = ERROR) \<and>
   (strings_ToUpper uu s \<notin> {''DEBUG'', ''INFO'', ''WARN'', ''WARNING'', ''ERROR''}
      \<longrightarrow> parseLogLevel uu s = INFO) \<and>
   parseLogLevel uu [] = INFO \<and>
   level (NewLogger uu cfg) = parseLogLevel uu (logging_Level cfg)"
proof -
  have d: "map lower_byte s = ''debug'' \<Longrightarrow> strings_ToUpper uu s = ''DEBUG''"
    using ToUpper_of_fold[of s "''debug''" uu] ascii_levels(1) up_debug by simp
  have i: "map lower_byte s = ''info'' \<Longrightarrow> strings_ToUpper uu s = ''INFO''"
    using ToUpper_of_fold[of s "''info''" uu] ascii_levels(2) up_info by simp
  have w: "map lower_byte s = ''warn'' \<Longrightarrow> strings_ToUpper uu s = ''WARN''"
    using ToUpper_of_fold[of s "''warn''" uu] ascii_levels(3) up_warn by simp
  have w2: "map lower_byte s = ''warning'' \<Longrightarrow> strings_ToUpper uu s = ''WARNING''"
    using ToUpper_of_fold[of s "''warning''" uu] ascii_levels(4) up_warning by simp
  have e: "map lower_byte s = ''error'' \<Longrightarrow> strings_ToUpper uu s = ''ERROR''"
    using ToUpper_of_fold[of s "''error''" uu] ascii_levels(5) up_error by simp
  have empty: "strings_ToUpper uu [] = []"
    by (simp add: strings_ToUpper_def isASCII_def)
  show ?thesis
    using d i w w2 e empty
    by (auto simp: parseLogLevel_def Let_def NewLogger_def)
qed

theorem parseLogLevel_case_insensitive_witness:
  "parseLogLevel id ''DeBuG'' = DEBUG \<and> parseLogLevel id ''Info'' = INFO \<and>
   parseLogLevel id ''WARN'' = WARN \<and> parseLogLevel id ''wArNiNg'' = WARN \<and>
   parseLogLevel id ''Error'' = ERROR \<and> parseLogLevel id ''verbose'' = INFO \<and>
   level (NewLogger id \<lparr>logging_Level = ''trace'', logging_Format = ''json''\<rparr>) = INFO"
proof -
  have 1: "map lower_byte ''DeBuG'' = ''debug''" by code_simp
  have 2: "map lower_byte ''Info'' = ''info''" by code_simp
  have 3: "map lower_byte ''WARN'' = ''warn''" by code_simp
  have 4: "map lower_byte ''wArNiNg'' = ''warning''" by code_simp
  have 5: "map lower_byte ''Error'' = ''error''" by code_simp
  have 6: "strings_ToUpper id ''verbose'' \<notin> {''DEBUG'', ''INFO'', ''WARN'', ''WARNING'', ''ERROR''}"
    by code_simp
  have 7: "strings_ToUpper id ''trace'' \<notin> {''DEBUG'', ''INFO'', ''WARN'', ''WARNING'', ''ERROR''}"
    by code_simp
  show ?thesis
    using parseLogLevel_case_insensitive[of "''DeBuG''" id] 1
      parseLogLevel_case_insensitive[of "''Info''" id] 2
      parseLogLevel_case_insensitive[of "''WARN''" id] 3
      parseLogLevel_case_insensitive[of "''wArNiNg''" id] 4
      parseLogLevel_case_insensitive[of "''Error''" id] 5
      parseLogLevel_case_insensitive[of "''verbose''" id] 6
      parseLogLevel_case_insensitive[of "''trace''" id "\<lparr>logging_Level = ''trace'', logging_Format = ''json''\<rparr>"] 7
    by simp
qed

lemma Logger_log_writer:
  "writer (Logger_log lib now l lvl msg flds) =
     (if lvl < level l then writer l
      else writer l @ [render_entry lib (format l)
             \<lparr>entry_Timestamp = now, entry_Level = LogLevel_String lvl,
              entry_Message = msg, entry_Fields = flds\<rparr>])"
  by (simp add: Logger_log_def Let_def)

lemma Logger_log_level: "level (Logger_log lib now l lvl msg flds) = level l"
  by (simp add: Logger_log_def Let_def)

lemma Logger_log_format: "format (Logger_log lib now l lvl msg flds) = format l"
  by (simp add: Logger_log_def Let_def)

lemma Logger_log_dropped: "lvl < level l \<Longrightarrow> Logger_log lib now l lvl msg flds = l"
  by (simp add: Logger_log_def)

text \<open>
  Claim C7. A call of \<^verbatim>\<open>Logger.log\<close> writes one line exactly when the level of the message
  is at least the logger's level, and leaves the logger as it was otherwise. A logger
  whose level is ERROR that is sent one DEBUG, one INFO, one WARN and one ERROR message
  has written one line more, the rendering of the ERROR message.
\<close>

theorem Logger_log_emits_iff:
  "((length (writer (Logger_log lib now l lvl msg flds)) = length (writer l) + 1)
      = (level l \<le> lvl)) \<and>
   ((Logger_log lib now l lvl msg flds = l) = (lvl < level l)) \<and>
   (level l \<le> lvl \<longrightarrow>
      writer (Logger_log lib now l lvl msg flds) =
        writer l @ [render_entry lib (format l)
          \<lparr>entry_Timestamp = now, entry_Level = LogLevel_String lvl,
           entry_Message = msg, entry_Fields = flds\<rparr>]) \<and>
   writer (Logger_Error lib t4
      (Logger_Warn lib t3
        (Logger_Info lib t2
          (Logger_Debug lib t1 (SetLevel l ERROR) m1 f1) m2 f2) m3 f3) m4 f4) =
     writer l @ [render_entry lib (format l)
       \<lparr>entry_Timestamp = t4, entry_Level = ''ERROR'', entry_Message = m4,
        entry_Fields = f4\<rparr>]"
proof -
  have a: "(length (writer (Logger_log lib now l lvl msg flds)) = length (writer l) + 1)
      = (level l \<le> lvl)"
    by (auto simp: Logger_log_writer)
  have b: "(Logger_log lib now l lvl msg flds = l) = (lvl < level l)"
  proof
    assume "Logger_log lib now l lvl msg flds = l"
    then have "writer (Logger_log lib now l lvl msg flds) = writer l" by simp
    then show "lvl < level l" by (auto simp: Logger_log_writer split: if_splits)
  next
    assume "lvl < level l"
    then show "Logger_log lib now l lvl msg flds = l" by (rule Logger_log_dropped)
  qed
  have c: "level l \<le> lvl \<longrightarrow>
      writer (Logger_log lib now l lvl msg flds) =
        writer l @ [render_entry lib (format l)
          \<lparr>entry_Timestamp = now, entry_Level = LogLevel_String lvl,
           entry_Message = msg, entry_Fields = flds\<rparr>]"
    by (auto simp: Logger_log_writer)
  let ?l0 = "SetLevel l ERROR"
  have l1: "Logger_Debug lib t1 ?l0 m1 f1 = ?l0"
    by (simp add: Logger_Debug_def Logger_log_def SetLevel_def DEBUG_def ERROR_def)
  have l2: "Logger_Info lib t2 ?l0 m2 f2 = ?l0"
    by (simp add: Logger_Info_def Logger_log_def SetLevel_def INFO_def ERROR_def)
  have l3: "Logger_Warn lib t3 ?l0 m3 f3 = ?l0"
    by (simp add: Logger_Warn_def Logger_log_def SetLevel_def WARN_def ERROR_def)
  have l4: "writer (Logger_Error lib t4 ?l0 m4 f4) =
     writer l @ [render_entry lib (format l)
       \<lparr>entry_Timestamp = t4, entry_Level = ''ERROR'', entry_Message = m4,
        entry_Fields = f4\<rparr>]"
    by (simp add: Logger_Error_def Logger_log_writer SetLevel_def LogLevel_String_def
        DEBUG_def INFO_def WARN_def ERROR_def)
  show ?thesis
    using a b c l4 by (simp only: l1 l2 l3) 
qed

theorem Logger_log_emits_iff_witness:
  "writer (Logger_log \<lparr>json_Marshal = (\<lambda>e. Inr (entry_Message e)), Sprint_v = (\<lambda>v. [])\<rparr>
      ''2024-01-01T00:00:00Z'' \<lparr>writer = [], level = WARN, format = ''json''\<rparr> ERROR
      ''boom'' []) = [''boom'']"
proof -
  have "level \<lparr>writer = [], level = WARN, format = ''json''\<rparr> \<le> ERROR"
    by (simp add: WARN_def ERROR_def)
  then show ?thesis
    using Logger_log_emits_iff[of "\<lparr>json_Marshal = (\<lambda>e. Inr (entry_Message e)), Sprint_v = (\<lambda>v. [])\<rparr>"
        "''2024-01-01T00:00:00Z''" "\<lparr>writer = [], level = WARN, format = ''json''\<rparr>" ERROR
        "''boom''" "[]"]
    by (simp add: render_entry_def)
qed

section \<open>Properties of the configuration loader\<close>

lemma validateConfig_None_iff:
  "(validateConfig c = None) =
     (0 < server_Port (Server c) \<and> server_Port (Server c) \<le> 65535 \<and>
      target_Host (Target c) \<noteq> [] \<and>
      (target_Scheme (Target c) = ''http'' \<or> target_Scheme (Target c) = ''https'') \<and>
      proxy_URL (Proxy c) \<noteq> [] \<and> proxy_Username (Proxy c) \<noteq> [] \<and>
      proxy_Password (Proxy c) \<noteq> [])"
  by (auto simp: validateConfig_def)

lemma LoadConfig_decoded:
  "files os path = Some content \<Longrightarrow> json_Decode codec content = Some decoded \<Longrightarrow>
   LoadConfig codec getenv os path =
     (case validateConfig (applyEnvironmentOverrides getenv decoded) of
        Some err \<Rightarrow> Inl (InvalidConfiguration err)
      | None \<Rightarrow> Inr (applyEnvironmentOverrides getenv decoded))"
  by (simp add: LoadConfig_def Let_def)

lemma LoadConfig_Inr:
  "LoadConfig codec getenv os path = Inr c \<Longrightarrow>
   \<exists>content decoded. files os path = Some content \<and> json_Decode codec content = Some decoded
     \<and> c = applyEnvironmentOverrides getenv decoded \<and> validateConfig c = None"
  by (auto simp: LoadConfig_def Let_def split: option.splits)

lemma override_Port:
  "server_Port (Server (applyEnvironmentOverrides g d)) =
     (if g ''PROXY_PORT'' \<noteq> [] then
        (case Atoi (g ''PROXY_PORT'') of Some p \<Rightarrow> p | None \<Rightarrow> server_Port (Server d))
      else server_Port (Server d))"
  by (simp add: applyEnvironmentOverrides_def Let_def split: option.splits)

lemma override_Host:
  "server_Host (Server (applyEnvironmentOverrides g d)) =
     (if g ''PROXY_HOST'' \<noteq> [] then g ''PROXY_HOST'' else server_Host (Server d))"
  by (simp add: applyEnvironmentOverrides_def Let_def split: option.splits)

lemma override_Target_Host:
  "target_Host (Target (applyEnvironmentOverrides g d)) =
     (if g ''TARGET_HOST'' \<noteq> [] then g ''TARGET_HOST'' else target_Host (Target d))"
  by (simp add: applyEnvironmentOverrides_def Let_def split: option.splits)

lemma override_Target_Scheme:
  "target_Scheme (Target (applyEnvironmentOverrides g d)) =
     (if g ''TARGET_SCHEME'' \<noteq> [] then g ''TARGET_SCHEME'' else target_Scheme (Target d))"
  by (simp add: applyEnvironmentOverrides_def Let_def split: option.splits)

lemma override_Proxy_URL:
  "proxy_URL (Proxy (applyEnvironmentOverrides g d)) =
     (if g ''PROXY_URL'' \<noteq> [] then g ''PROXY_URL'' else proxy_URL (Proxy d))"
  by (simp add: applyEnvironmentOverrides_def Let_def split: option.splits)

lemma override_Proxy_Username:
  "proxy_Username (Proxy (applyEnvironmentOverrides g d)) =
     (if g ''PROXY_USERNAME'' \<noteq> [] then g ''PROXY_USERNAME'' else proxy_Username (Proxy d))"
  by (simp add: applyEnvironmentOverrides_def Let_def split: option.splits)

lemma override_Proxy_Password:
  "proxy_Password (Proxy (applyEnvironmentOverrides g d)) =
     (if g ''PROXY_PASSWORD'' \<noteq> [] then g ''PROXY_PASSWORD'' else proxy_Password (Proxy d))"
  by (simp add: applyEnvironmentOverrides_def Let_def split: option.splits)

lemma override_Logging_Level:
  "logging_Level (Logging (applyEnvironmentOverrides g d)) =
     (if g ''LOG_LEVEL'' \<noteq> [] then g ''LOG_LEVEL'' else logging_Level (Logging d))"
  by (simp add: applyEnvironmentOverrides_def Let_def split: option.splits)

lemma override_Logging_Format:
  "logging_Format (Logging (applyEnvironmentOverrides g d)) = logging_Format (Logging d)"
  by (simp add: applyEnvironmentOverrides_def Let_def split: option.splits)

lemma Atoi_Some_nonempty: "Atoi s = Some p \<Longrightarrow> s \<noteq> []"
  by (auto simp: Atoi_def)

lemma Atoi_9999: "Atoi ''9999'' = Some 9999" by code_simp
lemma Atoi_abc: "Atoi ''abc'' = None" by code_simp


text \<open>
  Claim C5. \<^verbatim>\<open>validateConfig\<close> accepts a configuration exactly when its port lies in
  (0, 65535], its target host, proxy URL, proxy user name and proxy password are not
  empty and its target scheme is \<open>http\<close> or \<open>https\<close>. \<^verbatim>\<open>LoadConfig\<close> on a file that decodes
  validates the decoded configuration after the environment overrides: it fails with the
  validation error when there is one and returns the configuration otherwise, so every
  configuration it returns is a valid one.
\<close>

theorem validateConfig_accepts_iff:
  "((validateConfig c = None) =
     (0 < server_Port (Server c) \<and> server_Port (Server c) \<le> 65535 \<and>
      target_Host (Target c) \<noteq> [] \<and>
      (target_Scheme (Target c) = ''http'' \<or> target_Scheme (Target c) = ''https'') \<and>
      proxy_URL (Proxy c) \<noteq> [] \<and> proxy_Username (Proxy c) \<noteq> [] \<and>
      proxy_Password (Proxy c) \<noteq> [])) \<and>
   (files os path = Some content \<and> json_Decode codec content = Some decoded \<longrightarrow>
      LoadConfig codec getenv os path =
        (case validateConfig (applyEnvironmentOverrides getenv decoded) of
           Some err \<Rightarrow> Inl (InvalidConfiguration err)
         | None \<Rightarrow> Inr (applyEnvironmentOverrides getenv decoded))) \<and>
   (LoadConfig codec getenv os path = Inr loaded \<longrightarrow> validateConfig loaded = None)"
  using validateConfig_None_iff[of c] LoadConfig_decoded[of os path content codec decoded getenv]
    LoadConfig_Inr[of codec getenv os path loaded]
  by blast

lemma validate_Default: "validateConfig DefaultConfig = None"
  by (simp add: validateConfig_def DefaultConfig_def)

lemma no_env: "applyEnvironmentOverrides (\<lambda>k. []) d = d"
  by (simp add: applyEnvironmentOverrides_def)

theorem validateConfig_accepts_iff_witness:
  "validateConfig DefaultConfig = None \<and>
   validateConfig (DefaultConfig\<lparr>Server := \<lparr>server_Port = 70000, server_Host = ''0.0.0.0''\<rparr>\<rparr>)
     \<noteq> None \<and>
   LoadConfig
     \<lparr>json_Decode = (\<lambda>s. if s = ''default'' then Some DefaultConfig else None),
      json_Encode = (\<lambda>c. ''default'')\<rparr>
     (\<lambda>k. [])
     \<lparr>files = [''config.json'' \<mapsto> ''default''], can_mkdir = (\<lambda>p. True),
      can_create = (\<lambda>p. True), can_write = (\<lambda>p. True)\<rparr>
     ''config.json'' = Inr DefaultConfig"
proof -
  let ?codec = "\<lparr>json_Decode = (\<lambda>s. if s = ''default'' then Some DefaultConfig else None),
      json_Encode = (\<lambda>c. ''default'')\<rparr>"
  let ?os = "\<lparr>files = [''config.json'' \<mapsto> ''default''], can_mkdir = (\<lambda>p. True),
      can_create = (\<lambda>p. True), can_write = (\<lambda>p. True)\<rparr>"
  let ?bad = "DefaultConfig\<lparr>Server := \<lparr>server_Port = 70000, server_Host = ''0.0.0.0''\<rparr>\<rparr>"
  have a: "validateConfig DefaultConfig = None"
    using validateConfig_accepts_iff[of DefaultConfig]
    by (simp add: DefaultConfig_def)
  have b: "validateConfig ?bad \<noteq> None"
    using validateConfig_accepts_iff[of ?bad] by simp
  have c: "LoadConfig ?codec (\<lambda>k. []) ?os ''config.json'' = Inr DefaultConfig"
    using validateConfig_accepts_iff[of DefaultConfig ?os "''config.json''" "''default''" ?codec
        DefaultConfig "\<lambda>k. []"] a
    by (simp add: no_env)
  from a b c show ?thesis by blast
qed


text \<open>
  Claim C6, amended. In a configuration that \<^verbatim>\<open>LoadConfig\<close> returns, each of the seven
  text fields with an environment variable (server host, target host and scheme, proxy
  URL, user name and password, log level) equals the variable's value when that value is
  not empty. The port equals the integer that \<^verbatim>\<open>PROXY_PORT\<close> denotes when
  \<^verbatim>\<open>strconv.Atoi\<close> accepts the value (9999 for the value \<open>9999\<close>); a value that
  \<^verbatim>\<open>strconv.Atoi\<close> rejects is ignored and the port of the file is kept.
\<close>

theorem LoadConfig_environment_overrides:
  assumes "LoadConfig codec getenv os path = Inr c"
  shows "(Atoi (getenv ''PROXY_PORT'') = Some p \<longrightarrow> server_Port (Server c) = p) \<and>
         (getenv ''PROXY_PORT'' = ''9999'' \<longrightarrow> server_Port (Server c) = 9999) \<and>
         (getenv ''PROXY_HOST'' \<noteq> [] \<longrightarrow> server_Host (Server c) = getenv ''PROXY_HOST'') \<and>
         (getenv ''TARGET_HOST'' \<noteq> [] \<longrightarrow> target_Host (Target c) = getenv ''TARGET_HOST'') \<and>
         (getenv ''TARGET_SCHEME'' \<noteq> [] \<longrightarrow>
            target_Scheme (Target c) = getenv ''TARGET_SCHEME'') \<and>
         (getenv ''PROXY_URL'' \<noteq> [] \<longrightarrow> proxy_URL (Proxy c) = getenv ''PROXY_URL'') \<and>
         (getenv ''PROXY_USERNAME'' \<noteq> [] \<longrightarrow>
            proxy_Username (Proxy c) = getenv ''PROXY_USERNAME'') \<and>
         (getenv ''PROXY_PASSWORD'' \<noteq> [] \<longrightarrow>
            proxy_Password (Proxy c) = getenv ''PROXY_PASSWORD'') \<and>
         (getenv ''LOG_LEVEL'' \<noteq> [] \<longrightarrow> logging_Level (Logging c) = getenv ''LOG_LEVEL'') \<and>
         (files os path = Some content \<and> json_Decode codec content = Some decoded \<and>
          Atoi (getenv ''PROXY_PORT'') = None \<longrightarrow>
            server_Port (Server c) = server_Port (Server decoded))"
proof -
  from LoadConfig_Inr[OF assms] obtain content' decoded' where
    f: "files os path = Some content'" and d: "json_Decode codec content' = Some decoded'"
    and c: "c = applyEnvironmentOverrides getenv decoded'"
    by blast
  have port: "Atoi (getenv ''PROXY_PORT'') = Some p \<longrightarrow> server_Port (Server c) = p"
    using Atoi_Some_nonempty[of "getenv ''PROXY_PORT''" p] by (auto simp: c override_Port)
  have port9999: "getenv ''PROXY_PORT'' = ''9999'' \<longrightarrow> server_Port (Server c) = 9999"
    by (auto simp: c override_Port Atoi_9999)
  have keep: "files os path = Some content \<and> json_Decode codec content = Some decoded \<and>
          Atoi (getenv ''PROXY_PORT'') = None \<longrightarrow>
            server_Port (Server c) = server_Port (Server decoded)"
    using f d by (auto simp: c override_Port)
  show ?thesis
    using port port9999 keep
    by (simp add: c override_Host override_Target_Host override_Target_Scheme
        override_Proxy_URL override_Proxy_Username override_Proxy_Password
        override_Logging_Level)
qed

theorem LoadConfig_environment_overrides_witness:
  "LoadConfig
     \<lparr>json_Decode = (\<lambda>s. if s = ''default'' then Some DefaultConfig else None),
      json_Encode = (\<lambda>c. ''default'')\<rparr>
     (\<lambda>k. if k = ''PROXY_PORT'' then ''9999''
           else if k = ''TARGET_HOST'' then ''example.com'' else [])
     \<lparr>files = [''config.json'' \<mapsto> ''default''], can_mkdir = (\<lambda>p. True),
      can_create = (\<lambda>p. True), can_write = (\<lambda>p. True)\<rparr>
     ''config.json'' =
     Inr (applyEnvironmentOverrides
           (\<lambda>k. if k = ''PROXY_PORT'' then ''9999''
                 else if k = ''TARGET_HOST'' then ''example.com'' else [])
           DefaultConfig) \<and>
   server_Port (Server (applyEnvironmentOverrides
      (\<lambda>k. if k = ''PROXY_PORT'' then ''9999''
            else if k = ''TARGET_HOST'' then ''example.com'' else [])
      DefaultConfig)) = 9999 \<and>
   target_Host (Target (applyEnvironmentOverrides
      (\<lambda>k. if k = ''PROXY_PORT'' then ''9999''
            else if k = ''TARGET_HOST'' then ''example.com'' else [])
      DefaultConfig)) = ''example.com''"
proof -
  let ?codec = "\<lparr>json_Decode = (\<lambda>s. if s = ''default'' then Some DefaultConfig else None),
      json_Encode = (\<lambda>c. ''default'')\<rparr>"
  let ?os = "\<lparr>files = [''config.json'' \<mapsto> ''default''], can_mkdir = (\<lambda>p. True),
      can_create = (\<lambda>p. True), can_write = (\<lambda>p. True)\<rparr>"
  let ?env = "\<lambda>k. if k = ''PROXY_PORT'' then ''9999''
            else if k = ''TARGET_HOST'' then ''example.com'' else []"
  let ?c = "applyEnvironmentOverrides ?env DefaultConfig"
  have v: "validateConfig ?c = None"
    by (simp add: validateConfig_None_iff override_Port override_Target_Host
        override_Target_Scheme override_Proxy_URL override_Proxy_Username
        override_Proxy_Password Atoi_9999) (simp add: DefaultConfig_def)
  have l: "LoadConfig ?codec ?env ?os ''config.json'' = Inr ?c"
    using LoadConfig_decoded[of ?os "''config.json''" "''default''" ?codec DefaultConfig ?env] v
    by simp
  show ?thesis
    using l LoadConfig_environment_overrides[OF l, of 9999] by (simp add: Atoi_9999)
qed

text \<open>
  With \<^verbatim>\<open>PROXY_PORT\<close> set to \<open>abc\<close> and a file that holds the default configuration,
  \<^verbatim>\<open>LoadConfig\<close> succeeds and the port is the file's 8080: the variable is set to a value
  that is not empty and does not decide the field.
\<close>

theorem LoadConfig_environment_overrides_counterexample:
  "LoadConfig
     \<lparr>json_Decode = (\<lambda>s. if s = ''default'' then Some DefaultConfig else None),
      json_Encode = (\<lambda>c. ''default'')\<rparr>
     (\<lambda>k. if k = ''PROXY_PORT'' then ''abc'' else [])
     \<lparr>files = [''config.json'' \<mapsto> ''default''], can_mkdir = (\<lambda>p. True),
      can_create = (\<lambda>p. True), can_write = (\<lambda>p. True)\<rparr>
     ''config.json'' = Inr DefaultConfig \<and>
   server_Port (Server DefaultConfig) = 8080 \<and>
   Atoi ''abc'' = None"
proof -
  have e: "applyEnvironmentOverrides (\<lambda>k. if k = ''PROXY_PORT'' then ''abc'' else [])
             DefaultConfig = DefaultConfig"
    by (simp add: applyEnvironmentOverrides_def Atoi_abc)
  show ?thesis
    by (simp add: LoadConfig_def e validate_Default Atoi_abc) (simp add: DefaultConfig_def)
qed


text \<open>
  Claim C9, amended. When the file does not exist, \<^verbatim>\<open>loadConfigWithFallback\<close> does not
  read the environment and does not validate: its result is an error when the
  \<open>config\<close> directory or the file cannot be created or the file cannot be written, and
  the default configuration otherwise, in which case the file holds the encoded default
  configuration afterwards.
\<close>

theorem loadConfigWithFallback_missing_file:
  "(files os path = None \<longrightarrow>
      fst (loadConfigWithFallback codec getenv os path) =
        (if \<not> can_mkdir os ''config'' then Inl CreateDirFailed
         else if \<not> can_create os path then Inl CreateFileFailed
         else if \<not> can_write os path then Inl WriteDefaultFailed
         else Inr DefaultConfig)) \<and>
   (files os path = None \<and> can_mkdir os ''config'' \<and> can_create os path \<and> can_write os path
      \<longrightarrow> loadConfigWithFallback codec getenv os path =
            (Inr DefaultConfig,
             os\<lparr>files := (files os)(path \<mapsto> json_Encode codec DefaultConfig)\<rparr>))"
  by (simp add: loadConfigWithFallback_def Let_def)

theorem loadConfigWithFallback_missing_file_witness:
  "fst (loadConfigWithFallback
     \<lparr>json_Decode = (\<lambda>s. if s = ''default'' then Some DefaultConfig else None),
      json_Encode = (\<lambda>c. ''default'')\<rparr>
     (\<lambda>k. if k = ''PROXY_PORT'' then ''9999'' else [])
     \<lparr>files = Map.empty, can_mkdir = (\<lambda>p. True),
      can_create = (\<lambda>p. True), can_write = (\<lambda>p. True)\<rparr>
     ''config/config.json'') = Inr DefaultConfig \<and>
   server_Port (Server DefaultConfig) = 8080"
  using loadConfigWithFallback_missing_file[of
     "\<lparr>files = Map.empty, can_mkdir = (\<lambda>p. True),
      can_create = (\<lambda>p. True), can_write = (\<lambda>p. True)\<rparr>"
     "''config/config.json''"
     "\<lparr>json_Decode = (\<lambda>s. if s = ''default'' then Some DefaultConfig else None),
      json_Encode = (\<lambda>c. ''default'')\<rparr>"
     "(\<lambda>k. if k = ''PROXY_PORT'' then ''9999'' else [])"]
  by (simp add: DefaultConfig_def)

text \<open>
  The file does not exist and cannot be created (its directory is not the \<open>config\<close>
  directory that the function creates): the function returns an error, not the default
  configuration.
\<close>

theorem loadConfigWithFallback_missing_file_counterexample:
  "files \<lparr>files = Map.empty, can_mkdir = (\<lambda>p. True),
          can_create = (\<lambda>p. p = ''config/config.json''), can_write = (\<lambda>p. True)\<rparr>
     ''missing/settings.json'' = None \<and>
   fst (loadConfigWithFallback
     \<lparr>json_Decode = (\<lambda>s. if s = ''default'' then Some DefaultConfig else None),
      json_Encode = (\<lambda>c. ''default'')\<rparr>
     (\<lambda>k. [])
     \<lparr>files = Map.empty, can_mkdir = (\<lambda>p. True),
      can_create = (\<lambda>p. p = ''config/config.json''), can_write = (\<lambda>p. True)\<rparr>
     ''missing/settings.json'') = Inl CreateFileFailed"
  by (simp add: loadConfigWithFallback_def)

section \<open>Properties of the proxy\<close>

lemma canon_Content_Type: "CanonicalMIMEHeaderKey ''Content-Type'' = ''Content-Type''"
  by code_simp

lemma canon_X_Content_Type_Options:
  "CanonicalMIMEHeaderKey ''X-Content-Type-Options'' = ''X-Content-Type-Options''"
  by code_simp

lemma canon_X_Forwarded_For: "CanonicalMIMEHeaderKey ''X-Forwarded-For'' = ''X-Forwarded-For''"
  by code_simp

lemma canon_X_Forwarded_Proto:
  "CanonicalMIMEHeaderKey ''X-Forwarded-Proto'' = ''X-Forwarded-Proto''"
  by code_simp

lemma canon_X_Forwarded_Host:
  "CanonicalMIMEHeaderKey ''X-Forwarded-Host'' = ''X-Forwarded-Host''"
  by code_simp

text \<open>
  Claim C3 against the code. \<^verbatim>\<open>ForwardRequest\<close> joins the target's scheme and host with
  the decoded inbound path \<^verbatim>\<open>r.URL.Path\<close> and the inbound query, and
  \<^verbatim>\<open>http.NewRequestWithContext\<close> parses the joined text again. For the inbound request
  \<open>/orders?id=5\<close> the outbound URL has the path \<open>/orders\<close> and the query \<open>id=5\<close>, as
  the claim says. The inbound request \<open>/a%23b?x=1\<close> has the decoded path \<open>/a#b\<close> and goes
  out with the path \<open>/a\<close>, no query and the fragment \<open>b?x=1\<close>; the inbound request
  \<open>/a%3Fb?x=1\<close> has the decoded path \<open>/a?b\<close> and goes out with the path \<open>/a\<close> and the
  query \<open>b?x=1\<close>; for the inbound request \<open>/100%25\<close>, with the decoded path \<open>/100%\<close>, the
  joined text does not parse, no request is sent and the caller gets status 502. In
  these three cases path and query do not reach the outbound URL as they came in.
\<close>

theorem ForwardRequest_reparses_decoded_path:
  \<open>outbound_URL DefaultConfig
     \<lparr>req_Method = ''GET'', req_Path = ''/orders'', req_RawQuery = ''id=5'', req_Header = [],
      req_Host = ''localhost:8080'', req_RemoteAddr = ''10.0.0.1:5000'', req_Body = [],
      req_TLS = False\<rparr> =
     Inr \<lparr>url_Scheme = ''https'', url_Opaque = [], url_Authority = ''target.com'',
          url_Path = ''/orders'', url_ForceQuery = False, url_RawQuery = ''id=5'',
          url_Fragment = []\<rparr> \<and>
   url_ParseRequestURI ''/a%23b?x=1'' =
     Inr \<lparr>url_Scheme = [], url_Opaque = [], url_Authority = [], url_Path = ''/a#b'',
          url_ForceQuery = False, url_RawQuery = ''x=1'', url_Fragment = []\<rparr> \<and>
   outbound_URL DefaultConfig
     \<lparr>req_Method = ''GET'', req_Path = ''/a#b'', req_RawQuery = ''x=1'', req_Header = [],
      req_Host = ''localhost:8080'', req_RemoteAddr = ''10.0.0.1:5000'', req_Body = [],
      req_TLS = False\<rparr> =
     Inr \<lparr>url_Scheme = ''https'', url_Opaque = [], url_Authority = ''target.com'',
          url_Path = ''/a'', url_ForceQuery = False, url_RawQuery = [],
          url_Fragment = ''b?x=1''\<rparr> \<and>
   url_ParseRequestURI ''/a%3Fb?x=1'' =
     Inr \<lparr>url_Scheme = [], url_Opaque = [], url_Authority = [], url_Path = ''/a?b'',
          url_ForceQuery = False, url_RawQuery = ''x=1'', url_Fragment = []\<rparr> \<and>
   outbound_URL DefaultConfig
     \<lparr>req_Method = ''GET'', req_Path = ''/a?b'', req_RawQuery = ''x=1'', req_Header = [],
      req_Host = ''localhost:8080'', req_RemoteAddr = ''10.0.0.1:5000'', req_Body = [],
      req_TLS = False\<rparr> =
     Inr \<lparr>url_Scheme = ''https'', url_Opaque = [], url_Authority = ''target.com'',
          url_Path = ''/a'', url_ForceQuery = False, url_RawQuery = ''b?x=1'',
          url_Fragment = []\<rparr> \<and>
   url_ParseRequestURI ''/100%25'' =
     Inr \<lparr>url_Scheme = [], url_Opaque = [], url_Authority = [], url_Path = ''/100%'',
          url_ForceQuery = False, url_RawQuery = [], url_Fragment = []\<rparr> \<and>
   ForwardRequest
     \<lparr>NewRequest_error = (\<lambda>m u. None),
      client_Do = (\<lambda>q. Inr \<lparr>resp_StatusCode = 200, resp_Header = [], resp_Body = ''ok''\<rparr>)\<rparr>
     DefaultConfig 30
     \<lparr>req_Method = ''GET'', req_Path = ''/100%'', req_RawQuery = [], req_Header = [],
      req_Host = ''localhost:8080'', req_RemoteAddr = ''10.0.0.1:5000'', req_Body = [],
      req_TLS = False\<rparr> =
     Inl (CreateRequestFailed (ParseError (EscapeError ''%''))) \<and>
   ServeHTTP
     \<lparr>NewRequest_error = (\<lambda>m u. None),
      client_Do = (\<lambda>q. Inr \<lparr>resp_StatusCode = 200, resp_Header = [], resp_Body = ''ok''\<rparr>)\<rparr>
     DefaultConfig None ''2024-05-01T12:00:00Z''
     \<lparr>req_Method = ''GET'', req_Path = ''/100%'', req_RawQuery = [], req_Header = [],
      req_Host = ''localhost:8080'', req_RemoteAddr = ''10.0.0.1:5000'', req_Body = [],
      req_TLS = False\<rparr> =
     \<lparr>rw_Header = [''Content-Type'' \<mapsto> [''application/json'']], rw_Status = 502,
      rw_Body = ''{"error":"Proxy error","timestamp":"2024-05-01T12:00:00Z"}''\<rparr>\<close>
proof -
  let ?lib = "\<lparr>NewRequest_error = (\<lambda>m u. None),
      client_Do = (\<lambda>q. Inr \<lparr>resp_StatusCode = 200, resp_Header = [], resp_Body = ''ok''\<rparr>)\<rparr>"
  let ?r = "\<lambda>p q. \<lparr>req_Method = ''GET'', req_Path = p, req_RawQuery = q, req_Header = [],
      req_Host = ''localhost:8080'', req_RemoteAddr = ''10.0.0.1:5000'', req_Body = [],
      req_TLS = False\<rparr>"
  have t1: "targetURL DefaultConfig (?r ''/orders'' ''id=5'') = ''https://target.com/orders?id=5''"
    by (simp add: targetURL_def DefaultConfig_def)
  have t2: "targetURL DefaultConfig (?r ''/a#b'' ''x=1'') = ''https://target.com/a#b?x=1''"
    by (simp add: targetURL_def DefaultConfig_def)
  have t3: "targetURL DefaultConfig (?r ''/a?b'' ''x=1'') = ''https://target.com/a?b?x=1''"
    by (simp add: targetURL_def DefaultConfig_def)
  have t4: "targetURL DefaultConfig (?r ''/100%'' []) = ''https://target.com/100%''"
    by (simp add: targetURL_def DefaultConfig_def)
  have p1: "url_Parse ''https://target.com/orders?id=5'' =
     Inr \<lparr>url_Scheme = ''https'', url_Opaque = [], url_Authority = ''target.com'',
          url_Path = ''/orders'', url_ForceQuery = False, url_RawQuery = ''id=5'',
          url_Fragment = []\<rparr>"
    by code_simp
  have p2: "url_Parse ''https://target.com/a#b?x=1'' =
     Inr \<lparr>url_Scheme = ''https'', url_Opaque = [], url_Authority = ''target.com'',
          url_Path = ''/a'', url_ForceQuery = False, url_RawQuery = [],
          url_Fragment = ''b?x=1''\<rparr>"
    by code_simp
  have p3: "url_Parse ''https://target.com/a?b?x=1'' =
     Inr \<lparr>url_Scheme = ''https'', url_Opaque = [], url_Authority = ''target.com'',
          url_Path = ''/a'', url_ForceQuery = False, url_RawQuery = ''b?x=1'',
          url_Fragment = []\<rparr>"
    by code_simp
  have p4: "url_Parse ''https://target.com/100%'' = Inl (EscapeError ''%'')"
    by code_simp
  have q2: "url_ParseRequestURI ''/a%23b?x=1'' =
     Inr \<lparr>url_Scheme = [], url_Opaque = [], url_Authority = [], url_Path = ''/a#b'',
          url_ForceQuery = False, url_RawQuery = ''x=1'', url_Fragment = []\<rparr>"
    by code_simp
  have q3: "url_ParseRequestURI ''/a%3Fb?x=1'' =
     Inr \<lparr>url_Scheme = [], url_Opaque = [], url_Authority = [], url_Path = ''/a?b'',
          url_ForceQuery = False, url_RawQuery = ''x=1'', url_Fragment = []\<rparr>"
    by code_simp
  have q4: "url_ParseRequestURI ''/100%25'' =
     Inr \<lparr>url_Scheme = [], url_Opaque = [], url_Authority = [], url_Path = ''/100%'',
          url_ForceQuery = False, url_RawQuery = [], url_Fragment = []\<rparr>"
    by code_simp
  have f: "ForwardRequest ?lib DefaultConfig 30 (?r ''/100%'' []) =
     Inl (CreateRequestFailed (ParseError (EscapeError ''%'')))"
    by (simp only: ForwardRequest_def outbound_URL_def t4 p4) simp
  have s: \<open>ServeHTTP ?lib DefaultConfig None ''2024-05-01T12:00:00Z'' (?r ''/100%'' []) =
     \<lparr>rw_Header = [''Content-Type'' \<mapsto> [''application/json'']], rw_Status = 502,
      rw_Body = ''{"error":"Proxy error","timestamp":"2024-05-01T12:00:00Z"}''\<rparr>\<close>
    by (simp add: ServeHTTP_def f new_ResponseWriter_def Header_Set_def canon_Content_Type
        StatusBadGateway_def)
  show ?thesis
    by (simp only: outbound_URL_def t1 t2 t3 p1 p2 p3 q2 q3 q4 f s simp_thms)
qed

text \<open>
  Claim C1. When the forwarding call fails, \<^verbatim>\<open>ServeHTTP\<close> answers with the header
  \<open>Content-Type: application/json\<close> and nothing else in the header map, with status 504
  and the error text \<open>Request timeout\<close> when the context reports that its deadline was
  exceeded and status 502 and the error text \<open>Proxy error\<close> otherwise; the body is the
  JSON object of the error text and the timestamp \<open>now\<close>.
\<close>

theorem ServeHTTP_forward_failure:
  assumes \<open>ForwardRequest lib config 30 r = Inl err\<close>
  shows \<open>ServeHTTP lib config ctx_err now r =
     \<lparr>rw_Header = [''Content-Type'' \<mapsto> [''application/json'']],
      rw_Status = (if ctx_err = Some DeadlineExceeded then 504 else 502),
      rw_Body = (if ctx_err = Some DeadlineExceeded
                 then ''{"error":"Request timeout","timestamp":"'' @ now @ ''"}''
                 else ''{"error":"Proxy error","timestamp":"'' @ now @ ''"}'')\<rparr>\<close>
  using assms
  by (simp add: ServeHTTP_def new_ResponseWriter_def Header_Set_def canon_Content_Type
      StatusGatewayTimeout_def StatusBadGateway_def)

theorem ServeHTTP_forward_failure_witness:
  \<open>ServeHTTP \<lparr>NewRequest_error = (\<lambda>m u. None), client_Do = (\<lambda>q. Inl ''connection refused'')\<rparr>
     DefaultConfig (Some DeadlineExceeded) ''2024-05-01T12:00:00Z''
     \<lparr>req_Method = ''GET'', req_Path = ''/test'', req_RawQuery = [], req_Header = [],
      req_Host = ''localhost:8080'', req_RemoteAddr = ''10.0.0.1:5000'', req_Body = [],
      req_TLS = False\<rparr> =
   \<lparr>rw_Header = [''Content-Type'' \<mapsto> [''application/json'']], rw_Status = 504,
    rw_Body = ''{"error":"Request timeout","timestamp":"2024-05-01T12:00:00Z"}''\<rparr> \<and>
   ServeHTTP \<lparr>NewRequest_error = (\<lambda>m u. None), client_Do = (\<lambda>q. Inl ''connection refused'')\<rparr>
     DefaultConfig None ''2024-05-01T12:00:00Z''
     \<lparr>req_Method = ''GET'', req_Path = ''/test'', req_RawQuery = [], req_Header = [],
      req_Host = ''localhost:8080'', req_RemoteAddr = ''10.0.0.1:5000'', req_Body = [],
      req_TLS = False\<rparr> =
   \<lparr>rw_Header = [''Content-Type'' \<mapsto> [''application/json'']], rw_Status = 502,
    rw_Body = ''{"error":"Proxy error","timestamp":"2024-05-01T12:00:00Z"}''\<rparr>\<close>
proof -
  let ?lib = "\<lparr>NewRequest_error = (\<lambda>m u. None), client_Do = (\<lambda>q. Inl ''connection refused'')\<rparr>"
  let ?r = "\<lparr>req_Method = ''GET'', req_Path = ''/test'', req_RawQuery = [], req_Header = [],
      req_Host = ''localhost:8080'', req_RemoteAddr = ''10.0.0.1:5000'', req_Body = [],
      req_TLS = False\<rparr>"
  have t: "targetURL DefaultConfig ?r = ''https://target.com/test''"
    by (simp add: targetURL_def DefaultConfig_def)
  have p: "url_Parse ''https://target.com/test'' =
     Inr \<lparr>url_Scheme = ''https'', url_Opaque = [], url_Authority = ''target.com'',
          url_Path = ''/test'', url_ForceQuery = False, url_RawQuery = [],
          url_Fragment = []\<rparr>"
    by code_simp
  have f: "ForwardRequest ?lib DefaultConfig 30 ?r = Inl (ProxyRequestFailed ''connection refused'')"
    by (simp only: ForwardRequest_def outbound_URL_def t p) simp
  show ?thesis
    using ServeHTTP_forward_failure[OF f, of "Some DeadlineExceeded" "''2024-05-01T12:00:00Z''"]
      ServeHTTP_forward_failure[OF f, of None "''2024-05-01T12:00:00Z''"]
    by simp
qed

lemma http_Error_status: "rw_Status (http_Error w msg code) = code"
  by (simp add: http_Error_def Let_def)

lemma HealthCheck_not_GET:
  "req_Method r \<noteq> ''GET'' \<Longrightarrow> rw_Status (HealthCheck lib config now r) = 405"
  by (simp add: HealthCheck_def Let_def http_Error_status StatusMethodNotAllowed_def)

lemma Metrics_not_GET:
  "req_Method r \<noteq> ''GET'' \<Longrightarrow> rw_Status (Metrics uptime r) = 405"
  by (simp add: Metrics_def Let_def http_Error_status StatusMethodNotAllowed_def)

lemma HealthCheck_GET_status:
  "req_Method r = ''GET'' \<Longrightarrow>
   rw_Status (HealthCheck lib config now r) =
     (if NewRequest_error lib ''HEAD'' (out_URL (health_probe config)) = None
         \<and> (\<exists>resp. client_Do lib (health_probe config) = Inr resp)
      then 200 else 503)"
  by (auto simp: HealthCheck_def Let_def http_Error_status StatusServiceUnavailable_def
      StatusOK_def split: option.splits sum.splits)

lemma HealthCheck_GET_healthy:
  \<open>req_Method r = ''GET'' \<Longrightarrow>
   NewRequest_error lib ''HEAD'' (out_URL (health_probe config)) = None \<Longrightarrow>
   client_Do lib (health_probe config) = Inr resp \<Longrightarrow>
   HealthCheck lib config now r =
     \<lparr>rw_Header = [''Content-Type'' \<mapsto> [''application/json'']], rw_Status = 200,
      rw_Body = ''{"status":"healthy","timestamp":"'' @ now @ ''"}''\<rparr>\<close>
  by (simp add: HealthCheck_def Let_def new_ResponseWriter_def Header_Set_def
      canon_Content_Type StatusOK_def)

lemma Metrics_GET:
  \<open>req_Method r = ''GET'' \<Longrightarrow>
   Metrics uptime r =
     \<lparr>rw_Header = [''Content-Type'' \<mapsto> [''application/json'']], rw_Status = 200,
      rw_Body = ''{"metrics":{"uptime":"'' @ uptime @ ''","requests_total":0}}''\<rparr>\<close>
  by (simp add: Metrics_def Let_def new_ResponseWriter_def Header_Set_def
      canon_Content_Type StatusOK_def)

lemma health_probe_eq:
  "health_probe config =
     \<lparr>out_Method = ''HEAD'',
      out_URL = target_Scheme (Target config) @ ''://'' @ target_Host (Target config),
      out_Header = Map.empty, out_Body = [], out_Timeout = 5\<rparr>"
  by (simp add: health_probe_def)

text \<open>
  Claim C8. \<^verbatim>\<open>HealthCheck\<close> and \<^verbatim>\<open>Metrics\<close> answer a method other than GET with
  status 405. On GET, \<^verbatim>\<open>HealthCheck\<close> answers 503 exactly when the probe (a HEAD request to
  the target's scheme and host under a timeout of 5 seconds) cannot be created or the
  client fails on it, and otherwise 200 with the JSON body whose status is \<open>healthy\<close>;
  \<^verbatim>\<open>Metrics\<close> answers 200 with a JSON body whose \<open>requests_total\<close> is 0.
\<close>

theorem HealthCheck_Metrics_status:
  \<open>(req_Method r \<noteq> ''GET'' \<longrightarrow>
      rw_Status (HealthCheck lib config now r) = 405 \<and> rw_Status (Metrics uptime r) = 405) \<and>
   (req_Method r = ''GET'' \<longrightarrow>
      (rw_Status (HealthCheck lib config now r) = 503) =
         (NewRequest_error lib ''HEAD''
            (target_Scheme (Target config) @ ''://'' @ target_Host (Target config)) \<noteq> None
          \<or> (\<exists>e. client_Do lib
                \<lparr>out_Method = ''HEAD'',
                 out_URL = target_Scheme (Target config) @ ''://'' @ target_Host (Target config),
                 out_Header = Map.empty, out_Body = [], out_Timeout = 5\<rparr> = Inl e)) \<and>
      (rw_Status (HealthCheck lib config now r) \<noteq> 503 \<longrightarrow>
         HealthCheck lib config now r =
           \<lparr>rw_Header = [''Content-Type'' \<mapsto> [''application/json'']], rw_Status = 200,
            rw_Body = ''{"status":"healthy","timestamp":"'' @ now @ ''"}''\<rparr>) \<and>
      Metrics uptime r =
        \<lparr>rw_Header = [''Content-Type'' \<mapsto> [''application/json'']], rw_Status = 200,
         rw_Body = ''{"metrics":{"uptime":"'' @ uptime @ ''","requests_total":0}}''\<rparr>)\<close>
proof (intro conjI impI)
  assume "req_Method r \<noteq> ''GET''"
  then show "rw_Status (HealthCheck lib config now r) = 405"
    and "rw_Status (Metrics uptime r) = 405"
    by (simp_all add: HealthCheck_not_GET Metrics_not_GET)
next
  assume g: "req_Method r = ''GET''"
  let ?probe = "\<lparr>out_Method = ''HEAD'',
                 out_URL = target_Scheme (Target config) @ ''://'' @ target_Host (Target config),
                 out_Header = Map.empty, out_Body = [], out_Timeout = 5\<rparr>"
  have p: "health_probe config = ?probe" by (rule health_probe_eq)
  have u: "out_URL (health_probe config) =
      target_Scheme (Target config) @ ''://'' @ target_Host (Target config)"
    by (simp add: p)
  show "(rw_Status (HealthCheck lib config now r) = 503) =
         (NewRequest_error lib ''HEAD''
            (target_Scheme (Target config) @ ''://'' @ target_Host (Target config)) \<noteq> None
          \<or> (\<exists>e. client_Do lib ?probe = Inl e))"
    using HealthCheck_GET_status[OF g, of lib config now]
    by (cases "client_Do lib ?probe") (auto simp: p)
  show \<open>Metrics uptime r =
        \<lparr>rw_Header = [''Content-Type'' \<mapsto> [''application/json'']], rw_Status = 200,
         rw_Body = ''{"metrics":{"uptime":"'' @ uptime @ ''","requests_total":0}}''\<rparr>\<close>
    using g by (rule Metrics_GET)
  assume n: "rw_Status (HealthCheck lib config now r) \<noteq> 503"
  then have ok: "NewRequest_error lib ''HEAD'' (out_URL (health_probe config)) = None"
     and "\<exists>resp. client_Do lib (health_probe config) = Inr resp"
    using HealthCheck_GET_status[OF g, of lib config now] by (auto split: if_splits)
  then obtain resp where "client_Do lib (health_probe config) = Inr resp"
    by blast
  from HealthCheck_GET_healthy[OF g ok this]
  show \<open>HealthCheck lib config now r =
           \<lparr>rw_Header = [''Content-Type'' \<mapsto> [''application/json'']], rw_Status = 200,
            rw_Body = ''{"status":"healthy","timestamp":"'' @ now @ ''"}''\<rparr>\<close> .
qed

theorem HealthCheck_Metrics_status_witness:
  \<open>rw_Status (HealthCheck
       \<lparr>NewRequest_error = (\<lambda>m u. None), client_Do = (\<lambda>q. Inl ''proxyconnect failed'')\<rparr>
       DefaultConfig ''2024-05-01T12:00:00Z''
       \<lparr>req_Method = ''POST'', req_Path = ''/health'', req_RawQuery = [], req_Header = [],
        req_Host = ''localhost:8080'', req_RemoteAddr = ''10.0.0.1:5000'', req_Body = [],
        req_TLS = False\<rparr>) = 405 \<and>
   rw_Status (Metrics ''-20ns''
       \<lparr>req_Method = ''POST'', req_Path = ''/metrics'', req_RawQuery = [], req_Header = [],
        req_Host = ''localhost:8080'', req_RemoteAddr = ''10.0.0.1:5000'', req_Body = [],
        req_TLS = False\<rparr>) = 405 \<and>
   rw_Status (HealthCheck
       \<lparr>NewRequest_error = (\<lambda>m u. None), client_Do = (\<lambda>q. Inl ''proxyconnect failed'')\<rparr>
       DefaultConfig ''2024-05-01T12:00:00Z''
       \<lparr>req_Method = ''GET'', req_Path = ''/health'', req_RawQuery = [], req_Header = [],
        req_Host = ''localhost:8080'', req_RemoteAddr = ''10.0.0.1:5000'', req_Body = [],
        req_TLS = False\<rparr>) = 503 \<and>
   HealthCheck
       \<lparr>NewRequest_error = (\<lambda>m u. None),
        client_Do = (\<lambda>q. if out_Method q = ''HEAD'' \<and> out_URL q = ''https://target.com''
                             \<and> out_Timeout q = 5
                          then Inr \<lparr>resp_StatusCode = 200, resp_Header = [], resp_Body = []\<rparr>
                          else Inl ''unexpected request'')\<rparr>
       DefaultConfig ''2024-05-01T12:00:00Z''
       \<lparr>req_Method = ''GET'', req_Path = ''/health'', req_RawQuery = [], req_Header = [],
        req_Host = ''localhost:8080'', req_RemoteAddr = ''10.0.0.1:5000'', req_Body = [],
        req_TLS = False\<rparr> =
     \<lparr>rw_Header = [''Content-Type'' \<mapsto> [''application/json'']], rw_Status = 200,
      rw_Body = ''{"status":"healthy","timestamp":"2024-05-01T12:00:00Z"}''\<rparr> \<and>
   Metrics ''-20ns''
       \<lparr>req_Method = ''GET'', req_Path = ''/metrics'', req_RawQuery = [], req_Header = [],
        req_Host = ''localhost:8080'', req_RemoteAddr = ''10.0.0.1:5000'', req_Body = [],
        req_TLS = False\<rparr> =
     \<lparr>rw_Header = [''Content-Type'' \<mapsto> [''application/json'']], rw_Status = 200,
      rw_Body = ''{"metrics":{"uptime":"-20ns","requests_total":0}}''\<rparr>\<close>
proof -
  let ?down = "\<lparr>NewRequest_error = (\<lambda>m u. None), client_Do = (\<lambda>q. Inl ''proxyconnect failed'')\<rparr>"
  let ?up = "\<lparr>NewRequest_error = (\<lambda>m u. None),
        client_Do = (\<lambda>q. if out_Method q = ''HEAD'' \<and> out_URL q = ''https://target.com''
                             \<and> out_Timeout q = 5
                          then Inr \<lparr>resp_StatusCode = 200, resp_Header = [], resp_Body = []\<rparr>
                          else Inl ''unexpected request'')\<rparr>"
  let ?post = "\<lambda>p. \<lparr>req_Method = ''POST'', req_Path = p, req_RawQuery = [], req_Header = [],
        req_Host = ''localhost:8080'', req_RemoteAddr = ''10.0.0.1:5000'', req_Body = [],
        req_TLS = False\<rparr>"
  let ?get = "\<lambda>p. \<lparr>req_Method = ''GET'', req_Path = p, req_RawQuery = [], req_Header = [],
        req_Host = ''localhost:8080'', req_RemoteAddr = ''10.0.0.1:5000'', req_Body = [],
        req_TLS = False\<rparr>"
  have a: "rw_Status (HealthCheck ?down DefaultConfig ''2024-05-01T12:00:00Z'' (?post ''/health'')) = 405"
    using HealthCheck_Metrics_status[of "?post ''/health''" ?down DefaultConfig
        "''2024-05-01T12:00:00Z''" "''-20ns''"]
    by simp
  have b: "rw_Status (Metrics ''-20ns'' (?post ''/metrics'')) = 405"
    using HealthCheck_Metrics_status[of "?post ''/metrics''" ?down DefaultConfig
        "''2024-05-01T12:00:00Z''" "''-20ns''"]
    by simp
  have c: "rw_Status (HealthCheck ?down DefaultConfig ''2024-05-01T12:00:00Z'' (?get ''/health'')) = 503"
    using HealthCheck_Metrics_status[of "?get ''/health''" ?down DefaultConfig
        "''2024-05-01T12:00:00Z''" "''-20ns''"]
    by simp
  have d: \<open>HealthCheck ?up DefaultConfig ''2024-05-01T12:00:00Z'' (?get ''/health'') =
     \<lparr>rw_Header = [''Content-Type'' \<mapsto> [''application/json'']], rw_Status = 200,
      rw_Body = ''{"status":"healthy","timestamp":"2024-05-01T12:00:00Z"}''\<rparr>\<close>
    using HealthCheck_Metrics_status[of "?get ''/health''" ?up DefaultConfig
        "''2024-05-01T12:00:00Z''" "''-20ns''"]
    by (simp add: DefaultConfig_def)
  have e: \<open>Metrics ''-20ns'' (?get ''/metrics'') =
     \<lparr>rw_Header = [''Content-Type'' \<mapsto> [''application/json'']], rw_Status = 200,
      rw_Body = ''{"metrics":{"uptime":"-20ns","requests_total":0}}''\<rparr>\<close>
    using HealthCheck_Metrics_status[of "?get ''/metrics''" ?down DefaultConfig
        "''2024-05-01T12:00:00Z''" "''-20ns''"]
    by simp
  from a b c d e show ?thesis by simp
qed

lemma copyHeaders_eq:
  "copyHeaders dst src =
     (let h3 = (copy_loop copyHeaders_hopHeaders dst (req_Header src))
                 (''X-Forwarded-For'' \<mapsto> [req_RemoteAddr src], ''X-Forwarded-Proto'' \<mapsto> [''http''])
      in if req_Host src \<noteq> [] then h3(''X-Forwarded-Host'' \<mapsto> [req_Host src]) else h3)"
  by (simp add: copyHeaders_def Let_def Header_Set_def canon_X_Forwarded_For
      canon_X_Forwarded_Proto canon_X_Forwarded_Host)

text \<open>
  Claim C4. In the header of the outbound request, \<open>X-Forwarded-For\<close> is the inbound
  remote address alone and \<open>X-Forwarded-Proto\<close> is \<open>http\<close> alone, whatever the inbound
  request held under these names and whether or not it came in over TLS. When the
  inbound host is not empty \<open>X-Forwarded-Host\<close> is that host alone; when it is empty the
  name is not set by \<^verbatim>\<open>copyHeaders\<close> and holds what the copy of the inbound header gave it.
\<close>

theorem copyHeaders_forwarded:
  "out_Header (outbound_request config t r) ''X-Forwarded-For'' = Some [req_RemoteAddr r] \<and>
   out_Header (outbound_request config t r) ''X-Forwarded-Proto'' = Some [''http''] \<and>
   (req_Host r \<noteq> [] \<longrightarrow>
      out_Header (outbound_request config t r) ''X-Forwarded-Host'' = Some [req_Host r]) \<and>
   (req_Host r = [] \<longrightarrow>
      out_Header (outbound_request config t r) ''X-Forwarded-Host'' =
        copy_loop copyHeaders_hopHeaders Map.empty (req_Header r) ''X-Forwarded-Host'')"
  by (simp add: outbound_request_def copyHeaders_eq Let_def)

lemma add_values_other: "k \<noteq> CanonicalMIMEHeaderKey name \<Longrightarrow> add_values h name vs k = h k"
  by (induction vs arbitrary: h) (auto simp: Header_Add_def Let_def)

lemma add_values_same:
  "add_values h name vs (CanonicalMIMEHeaderKey name) =
     (if vs = [] then h (CanonicalMIMEHeaderKey name)
      else Some ((case h (CanonicalMIMEHeaderKey name) of None \<Rightarrow> [] | Some ws \<Rightarrow> ws) @ vs))"
  by (induction vs arbitrary: h) (auto simp: Header_Add_def Let_def split: option.splits)

theorem copyHeaders_forwarded_witness:
  "out_Header (outbound_request DefaultConfig 30
     \<lparr>req_Method = ''GET'', req_Path = ''/'', req_RawQuery = [],
      req_Header = [(''X-Forwarded-For'', [''1.2.3.4'']), (''X-Forwarded-Proto'', [''https''])],
      req_Host = ''proxy.local'', req_RemoteAddr = ''10.0.0.1:5000'', req_Body = [],
      req_TLS = True\<rparr>) ''X-Forwarded-For'' = Some [''10.0.0.1:5000''] \<and>
   out_Header (outbound_request DefaultConfig 30
     \<lparr>req_Method = ''GET'', req_Path = ''/'', req_RawQuery = [],
      req_Header = [(''X-Forwarded-For'', [''1.2.3.4'']), (''X-Forwarded-Proto'', [''https''])],
      req_Host = ''proxy.local'', req_RemoteAddr = ''10.0.0.1:5000'', req_Body = [],
      req_TLS = True\<rparr>) ''X-Forwarded-Proto'' = Some [''http''] \<and>
   out_Header (outbound_request DefaultConfig 30
     \<lparr>req_Method = ''GET'', req_Path = ''/'', req_RawQuery = [],
      req_Header = [(''X-Forwarded-For'', [''1.2.3.4'']), (''X-Forwarded-Proto'', [''https''])],
      req_Host = ''proxy.local'', req_RemoteAddr = ''10.0.0.1:5000'', req_Body = [],
      req_TLS = True\<rparr>) ''X-Forwarded-Host'' = Some [''proxy.local'']"
  using copyHeaders_forwarded[of DefaultConfig 30
     "\<lparr>req_Method = ''GET'', req_Path = ''/'', req_RawQuery = [],
      req_Header = [(''X-Forwarded-For'', [''1.2.3.4'']), (''X-Forwarded-Proto'', [''https''])],
      req_Host = ''proxy.local'', req_RemoteAddr = ''10.0.0.1:5000'', req_Body = [],
      req_TLS = True\<rparr>"]
  by simp

lemma upper_upper_byte: "upper_byte (upper_byte c) = upper_byte c"
  by (auto simp: char_eq_iff_code of_char_upper_byte)

lemma lower_lower_byte: "lower_byte (lower_byte c) = lower_byte c"
  by (auto simp: char_eq_iff_code of_char_lower_byte)

lemma valid_lower_byte: "validHeaderFieldByte (lower_byte c) = validHeaderFieldByte c"
proof (cases "65 \<le> (of_char c :: nat) \<and> (of_char c :: nat) \<le> 90")
  case True
  then have "validHeaderFieldByte c"
    by (simp add: validHeaderFieldByte_def Let_def)
  moreover have "97 \<le> (of_char (lower_byte c) :: nat) \<and> (of_char (lower_byte c) :: nat) \<le> 122"
    using True by (auto simp: of_char_lower_byte)
  then have "validHeaderFieldByte (lower_byte c)"
    by (simp add: validHeaderFieldByte_def Let_def)
  ultimately show ?thesis by simp
next
  case False
  then have "lower_byte c = c" by (auto simp: lower_byte_def)
  then show ?thesis by simp
qed

lemma valid_upper_byte: "validHeaderFieldByte (upper_byte c) = validHeaderFieldByte c"
proof (cases "97 \<le> (of_char c :: nat) \<and> (of_char c :: nat) \<le> 122")
  case True
  then have "validHeaderFieldByte c"
    by (simp add: validHeaderFieldByte_def Let_def)
  moreover have "65 \<le> (of_char (upper_byte c) :: nat) \<and> (of_char (upper_byte c) :: nat) \<le> 90"
    using True by (auto simp: of_char_upper_byte)
  then have "validHeaderFieldByte (upper_byte c)"
    by (simp add: validHeaderFieldByte_def Let_def)
  ultimately show ?thesis by simp
next
  case False
  then have "upper_byte c = c" by (auto simp: upper_byte_def)
  then show ?thesis by simp
qed

lemma valid_same_lower:
  assumes "lower_byte c = lower_byte d"
  shows "validHeaderFieldByte c = validHeaderFieldByte d"
  using valid_lower_byte[of c] valid_lower_byte[of d] assms by simp

lemma all_valid_same_lower:
  "map lower_byte k = map lower_byte h \<Longrightarrow>
   list_all validHeaderFieldByte k = list_all validHeaderFieldByte h"
proof (induction k arbitrary: h)
  case Nil
  then show ?case by simp
next
  case (Cons c cs)
  then obtain d ds where h: "h = d # ds" by (cases h) auto
  with Cons.prems have "lower_byte c = lower_byte d" "map lower_byte cs = map lower_byte ds"
    by simp_all
  with Cons.IH[of ds] valid_same_lower[of c d] h show ?case by simp
qed

lemma upper_same_lower: "lower_byte c = lower_byte d \<Longrightarrow> upper_byte c = upper_byte d"
  by (metis upper_lower_byte)

lemma canonicalize_same_lower:
  "map lower_byte k = map lower_byte h \<Longrightarrow> canonicalize u k = canonicalize u h"
proof (induction k arbitrary: h u)
  case Nil
  then show ?case by simp
next
  case (Cons c cs)
  then obtain d ds where h: "h = d # ds" by (cases h) auto
  with Cons.prems have cd: "lower_byte c = lower_byte d"
    and rest: "map lower_byte cs = map lower_byte ds"
    by simp_all
  have step: "(if u then upper_byte c else lower_byte c) = (if u then upper_byte d else lower_byte d)"
    using cd upper_same_lower[OF cd] by simp
  show ?case
    using Cons.IH[OF rest] step by (simp add: h Let_def)
qed

lemma Canonical_same_lower:
  "map lower_byte k = map lower_byte h \<Longrightarrow> CanonicalMIMEHeaderKey k = CanonicalMIMEHeaderKey h
     \<or> (\<not> list_all validHeaderFieldByte h)"
  using all_valid_same_lower[of k h] canonicalize_same_lower[of k h True]
  by (auto simp: CanonicalMIMEHeaderKey_def)

lemma canonicalize_valid:
  "list_all validHeaderFieldByte (canonicalize u s) = list_all validHeaderFieldByte s"
  by (induction s arbitrary: u) (auto simp: Let_def valid_upper_byte valid_lower_byte)

lemma canonicalize_idem: "canonicalize u (canonicalize u s) = canonicalize u s"
  by (induction s arbitrary: u) (auto simp: Let_def upper_upper_byte lower_lower_byte)

lemma Canonical_idem: "CanonicalMIMEHeaderKey (CanonicalMIMEHeaderKey s) = CanonicalMIMEHeaderKey s"
  by (simp add: CanonicalMIMEHeaderKey_def canonicalize_valid canonicalize_idem)

lemma copy_loop_untouched:
  "(\<And>name vs. (name, vs) \<in> set es \<Longrightarrow> index_bool hop name \<or> CanonicalMIMEHeaderKey name \<noteq> k)
   \<Longrightarrow> copy_loop hop dst es k = dst k"
proof (induction es arbitrary: dst)
  case Nil
  then show ?case by simp
next
  case (Cons e es)
  obtain name vs where e: "e = (name, vs)" by (cases e)
  have here: "index_bool hop name \<or> CanonicalMIMEHeaderKey name \<noteq> k"
    using Cons.prems[of name vs] e by simp
  have later: "\<And>n v. (n, v) \<in> set es \<Longrightarrow> index_bool hop n \<or> CanonicalMIMEHeaderKey n \<noteq> k"
    using Cons.prems by auto
  show ?case
    using Cons.IH[OF later] here by (auto simp: e add_values_other)
qed

lemma readMIMEHeader_keys:
  "readMIMEHeader m ls k = Some vs \<Longrightarrow>
   m k \<noteq> None \<or> (\<exists>w. k = CanonicalMIMEHeaderKey w)"
proof (induction ls arbitrary: m)
  case Nil
  then show ?case by simp
next
  case (Cons l ls)
  obtain w v where l: "l = (w, v)" by (cases l)
  from Cons.prems have "readMIMEHeader (Header_Add m w v) ls k = Some vs"
    by (simp add: l)
  from Cons.IH[OF this] show ?case
    by (auto simp: Header_Add_def Let_def split: if_splits)
qed

lemma parsed_names_canonical:
  assumes "range_of (readMIMEHeader Map.empty ls) es"
  shows "\<forall>name \<in> fst ` set es. \<exists>original. name = CanonicalMIMEHeaderKey original"
proof
  fix name
  assume "name \<in> fst ` set es"
  then obtain vs where mem: "(name, vs) \<in> set es" by auto
  from assms have d: "distinct (map fst es)" and m: "map_of es = readMIMEHeader Map.empty ls"
    by (simp_all add: range_of_def)
  from d mem have "map_of es name = Some vs"
    by (rule map_of_is_SomeI)
  then have "readMIMEHeader Map.empty ls name = Some vs"
    by (simp add: m)
  from readMIMEHeader_keys[OF this]
  show "\<exists>original. name = CanonicalMIMEHeaderKey original"
    by auto
qed

lemma hop_names_facts:
  "list_all (\<lambda>h. list_all validHeaderFieldByte h \<and> CanonicalMIMEHeaderKey h = h
      \<and> index_bool copyHeaders_hopHeaders h \<and> index_bool copyResponseHeaders_hopHeaders h
      \<and> map lower_byte h \<noteq> map lower_byte ''X-Forwarded-For''
      \<and> map lower_byte h \<noteq> map lower_byte ''X-Forwarded-Proto''
      \<and> map lower_byte h \<noteq> map lower_byte ''X-Forwarded-Host'')
     [''Connection'', ''Proxy-Connection'', ''Keep-Alive'', ''Proxy-Authenticate'',
      ''Proxy-Authorization'', ''Te'', ''Trailer'', ''Transfer-Encoding'', ''Upgrade'']"
  by code_simp

lemma hop_name_facts:
  assumes "h \<in> set [''Connection'', ''Proxy-Connection'', ''Keep-Alive'', ''Proxy-Authenticate'',
      ''Proxy-Authorization'', ''Te'', ''Trailer'', ''Transfer-Encoding'', ''Upgrade'']"
  shows "list_all validHeaderFieldByte h \<and> CanonicalMIMEHeaderKey h = h
      \<and> index_bool copyHeaders_hopHeaders h \<and> index_bool copyResponseHeaders_hopHeaders h
      \<and> map lower_byte h \<noteq> map lower_byte ''X-Forwarded-For''
      \<and> map lower_byte h \<noteq> map lower_byte ''X-Forwarded-Proto''
      \<and> map lower_byte h \<noteq> map lower_byte ''X-Forwarded-Host''"
proof -
  from hop_names_facts
  have "\<forall>h \<in> set [''Connection'', ''Proxy-Connection'', ''Keep-Alive'', ''Proxy-Authenticate'',
      ''Proxy-Authorization'', ''Te'', ''Trailer'', ''Transfer-Encoding'', ''Upgrade''].
      list_all validHeaderFieldByte h \<and> CanonicalMIMEHeaderKey h = h
      \<and> index_bool copyHeaders_hopHeaders h \<and> index_bool copyResponseHeaders_hopHeaders h
      \<and> map lower_byte h \<noteq> map lower_byte ''X-Forwarded-For''
      \<and> map lower_byte h \<noteq> map lower_byte ''X-Forwarded-Proto''
      \<and> map lower_byte h \<noteq> map lower_byte ''X-Forwarded-Host''"
    by (simp only: list_all_iff)
  from this assms show ?thesis by (rule bspec)
qed

lemma copy_loop_drops_hop:
  assumes r: "\<forall>name \<in> fst ` set es. \<exists>original. name = CanonicalMIMEHeaderKey original"
    and h: "h \<in> set [''Connection'', ''Proxy-Connection'', ''Keep-Alive'', ''Proxy-Authenticate'',
      ''Proxy-Authorization'', ''Te'', ''Trailer'', ''Transfer-Encoding'', ''Upgrade'']"
    and hop: "index_bool hop h"
    and k: "map lower_byte k = map lower_byte h"
  shows "copy_loop hop Map.empty es k = None"
proof -
  note hf = hop_name_facts[OF h]
  have "copy_loop hop Map.empty es k = Map.empty k"
  proof (rule copy_loop_untouched)
    fix name vs
    assume mem: "(name, vs) \<in> set es"
    show "index_bool hop name \<or> CanonicalMIMEHeaderKey name \<noteq> k"
    proof (cases "CanonicalMIMEHeaderKey name = k")
      case False
      then show ?thesis by simp
    next
      case True
      from r mem obtain original where "name = CanonicalMIMEHeaderKey original"
        by force
      then have "CanonicalMIMEHeaderKey name = name"
        by (simp add: Canonical_idem)
      with True have "name = k" by simp
      with k have "map lower_byte name = map lower_byte h" by simp
      with Canonical_same_lower[of name h] hf
      have "CanonicalMIMEHeaderKey name = CanonicalMIMEHeaderKey h" by blast
      also have "\<dots> = h" using hf by blast
      finally have "name = h"
        using \<open>CanonicalMIMEHeaderKey name = name\<close> by (simp only:)
      with hop show ?thesis by (simp only: simp_thms)
    qed
  qed
  then show ?thesis by simp
qed

text \<open>
  Claim C2. Let every name in the header map of the inbound request and of the upstream
  response be the canonical form of a name, as it is for the maps \<^verbatim>\<open>net/http\<close> builds from
  the header lines of a message, in whatever letter case the names are written there; the
  entries may be visited in any order. Then for each of the nine hop-by-hop names, no
  name that equals it up to letter case has an entry in the header of the outbound
  request or in the header that \<^verbatim>\<open>copyResponseHeaders\<close> and \<^verbatim>\<open>ServeHTTP\<close> write to the
  caller.
\<close>

theorem hop_by_hop_headers_absent:
  assumes "\<forall>name \<in> fst ` set (req_Header r).
             \<exists>original. name = CanonicalMIMEHeaderKey original"
    and "\<forall>name \<in> fst ` set (resp_Header resp).
             \<exists>original. name = CanonicalMIMEHeaderKey original"
    and "h \<in> set [''Connection'', ''Proxy-Connection'', ''Keep-Alive'', ''Proxy-Authenticate'',
      ''Proxy-Authorization'', ''Te'', ''Trailer'', ''Transfer-Encoding'', ''Upgrade'']"
    and "map lower_byte k = map lower_byte h"
  shows "out_Header (outbound_request config t r) k = None \<and>
         rw_Header (copyResponseHeaders new_ResponseWriter resp) k = None \<and>
         (ForwardRequest lib config 30 r = Inr resp \<longrightarrow>
            rw_Header (ServeHTTP lib config ctx_err now r) k = None)"
proof -
  note hf = hop_name_facts[OF assms(3)]
  have hop1: "index_bool copyHeaders_hopHeaders h"
    and hop2: "index_bool copyResponseHeaders_hopHeaders h"
    using hf by blast+
  have k1: "k \<noteq> ''X-Forwarded-For''" and k2: "k \<noteq> ''X-Forwarded-Proto''"
    and k3: "k \<noteq> ''X-Forwarded-Host''"
    using hf assms(4) by auto
  have req: "copy_loop copyHeaders_hopHeaders Map.empty (req_Header r) k = None"
    using assms(1) assms(3) hop1 assms(4)
    by (rule copy_loop_drops_hop)
  have resp: "copy_loop copyResponseHeaders_hopHeaders Map.empty (resp_Header resp) k = None"
    using assms(2) assms(3) hop2 assms(4)
    by (rule copy_loop_drops_hop)
  have a: "out_Header (outbound_request config t r) k = None"
    using req k1 k2 k3 by (simp add: outbound_request_def copyHeaders_eq Let_def)
  have b: "rw_Header (copyResponseHeaders new_ResponseWriter resp) k = None"
    using resp by (simp add: copyResponseHeaders_def new_ResponseWriter_def)
  have c: "ForwardRequest lib config 30 r = Inr resp \<longrightarrow>
            rw_Header (ServeHTTP lib config ctx_err now r) k = None"
    using b by (simp add: ServeHTTP_def Let_def)
  from a b c show ?thesis by blast
qed

lemma canon_examples:
  "CanonicalMIMEHeaderKey ''accept'' = ''Accept''"
  "CanonicalMIMEHeaderKey ''connection'' = ''Connection''"
  "CanonicalMIMEHeaderKey ''KEEP-ALIVE'' = ''Keep-Alive''"
  "CanonicalMIMEHeaderKey ''transfer-encoding'' = ''Transfer-Encoding''"
  "CanonicalMIMEHeaderKey ''content-type'' = ''Content-Type''"
  by code_simp+

theorem hop_by_hop_headers_absent_witness:
  "out_Header (outbound_request DefaultConfig 30
     \<lparr>req_Method = ''GET'', req_Path = ''/'', req_RawQuery = [],
      req_Header = [(''Keep-Alive'', [''timeout=5'']), (''Connection'', [''close'']),
                    (''Accept'', [''*/*''])],
      req_Host = ''proxy.local'', req_RemoteAddr = ''10.0.0.1:5000'', req_Body = [],
      req_TLS = False\<rparr>) ''Connection'' = None \<and>
   out_Header (outbound_request DefaultConfig 30
     \<lparr>req_Method = ''GET'', req_Path = ''/'', req_RawQuery = [],
      req_Header = [(''Keep-Alive'', [''timeout=5'']), (''Connection'', [''close'']),
                    (''Accept'', [''*/*''])],
      req_Host = ''proxy.local'', req_RemoteAddr = ''10.0.0.1:5000'', req_Body = [],
      req_TLS = False\<rparr>) ''keep-alive'' = None \<and>
   rw_Header (copyResponseHeaders new_ResponseWriter
     \<lparr>resp_StatusCode = 200,
      resp_Header = [(''Content-Type'', [''text/html'']), (''Transfer-Encoding'', [''chunked''])],
      resp_Body = ''hello''\<rparr>) ''Transfer-Encoding'' = None \<and>
   out_Header (outbound_request DefaultConfig 30
     \<lparr>req_Method = ''GET'', req_Path = ''/'', req_RawQuery = [],
      req_Header = [(''Keep-Alive'', [''timeout=5'']), (''Connection'', [''close'']),
                    (''Accept'', [''*/*''])],
      req_Host = ''proxy.local'', req_RemoteAddr = ''10.0.0.1:5000'', req_Body = [],
      req_TLS = False\<rparr>) ''Accept'' = Some [''*/*'']"
proof -
  let ?r = "\<lparr>req_Method = ''GET'', req_Path = ''/'', req_RawQuery = [],
      req_Header = [(''Keep-Alive'', [''timeout=5'']), (''Connection'', [''close'']),
                    (''Accept'', [''*/*''])],
      req_Host = ''proxy.local'', req_RemoteAddr = ''10.0.0.1:5000'', req_Body = [],
      req_TLS = False\<rparr>"
  let ?resp = "\<lparr>resp_StatusCode = 200,
      resp_Header = [(''Content-Type'', [''text/html'']), (''Transfer-Encoding'', [''chunked''])],
      resp_Body = ''hello''\<rparr>"
  let ?req_lines = "[(''accept'', ''*/*''), (''connection'', ''close''), (''KEEP-ALIVE'', ''timeout=5'')]"
  let ?resp_lines = "[(''transfer-encoding'', ''chunked''), (''content-type'', ''text/html'')]"
  have "range_of (readMIMEHeader Map.empty ?req_lines) (req_Header ?r)"
    by (simp add: range_of_def Header_Add_def canon_examples)
  then have 1: "\<forall>name \<in> fst ` set (req_Header ?r).
      \<exists>original. name = CanonicalMIMEHeaderKey original"
    by (rule parsed_names_canonical)
  have "range_of (readMIMEHeader Map.empty ?resp_lines) (resp_Header ?resp)"
    by (simp add: range_of_def Header_Add_def canon_examples)
  then have 2: "\<forall>name \<in> fst ` set (resp_Header ?resp).
      \<exists>original. name = CanonicalMIMEHeaderKey original"
    by (rule parsed_names_canonical)
  have c: "''Connection'' \<in> set [''Connection'', ''Proxy-Connection'', ''Keep-Alive'',
      ''Proxy-Authenticate'', ''Proxy-Authorization'', ''Te'', ''Trailer'', ''Transfer-Encoding'',
      ''Upgrade'']"
    by simp
  have ka: "''Keep-Alive'' \<in> set [''Connection'', ''Proxy-Connection'', ''Keep-Alive'',
      ''Proxy-Authenticate'', ''Proxy-Authorization'', ''Te'', ''Trailer'', ''Transfer-Encoding'',
      ''Upgrade'']"
    by simp
  have te: "''Transfer-Encoding'' \<in> set [''Connection'', ''Proxy-Connection'', ''Keep-Alive'',
      ''Proxy-Authenticate'', ''Proxy-Authorization'', ''Te'', ''Trailer'', ''Transfer-Encoding'',
      ''Upgrade'']"
    by simp
  have lower: "map lower_byte ''keep-alive'' = map lower_byte ''Keep-Alive''"
    by code_simp
  have accept: "out_Header (outbound_request DefaultConfig 30 ?r) ''Accept'' = Some [''*/*'']"
    by code_simp
  show ?thesis
    using hop_by_hop_headers_absent[OF 1 2 c refl, of DefaultConfig 30]
      hop_by_hop_headers_absent[OF 1 2 ka lower, of DefaultConfig 30]
      hop_by_hop_headers_absent[OF 1 2 te refl, of DefaultConfig 30]
      accept
    by simp
qed

text \<open>
  The loop of \<^verbatim>\<open>copyHeaders\<close> compares the names as they are: on a header map that was
  not built by \<^verbatim>\<open>net/http\<close> and holds a name in lower case, the entry passes the
  comparison and \<^verbatim>\<open>Header.Add\<close> stores it under the canonical name.
\<close>

lemma copy_loop_name_not_canonical:
  "copy_loop copyHeaders_hopHeaders Map.empty [(''connection'', [''close''])] ''Connection''
     = Some [''close'']"
  by code_simp

end
